theory Spec2Isabelle
  imports Complex_Main "HOL-Library.Multiset"
begin

section \<open>JavaScript values used by the route\<close>

subsection \<open>Thrown values\<close>

text \<open>
  A thrown value is either an instance of \<^verbatim>\<open>Error\<close> (or of one of its subclasses),
  which carries a message, or some other value. The handler tells the two apart with
  \<^verbatim>\<open>error instanceof Error\<close>.
\<close>

datatype js_error =
    TypeError string
  | SyntaxError string
  | Error string
  | NonError string

fun instanceof_Error :: "js_error \<Rightarrow> bool" where
  "instanceof_Error (NonError _) = False"
| "instanceof_Error _ = True"

fun message :: "js_error \<Rightarrow> string" where
  "message (TypeError m) = m"
| "message (SyntaxError m) = m"
| "message (Error m) = m"
| "message (NonError m) = m"

subsection \<open>Numbers: IEEE 754 binary64\<close>

text \<open>
  A JavaScript \<^verbatim>\<open>number\<close> is a double. A finite double is kept as the rational it
  denotes (\<open>Dbl 0\<close> is \<open>+0\<close>); every arithmetic operation computes the exact rational
  result and rounds it to the nearest double, ties to even (\<open>round64\<close>).
\<close>

datatype number = NaN | PosInf | NegInf | NegZero | Dbl rat

text \<open>The number of binary digits of a positive integer.\<close>

function bitlen :: "int \<Rightarrow> int" where
  "bitlen n = (if n \<le> 0 then 0 else 1 + bitlen (n div 2))"
  by pat_completeness auto
termination
  by (relation "measure nat") auto

declare bitlen.simps [simp del]

definition pow2 :: "int \<Rightarrow> rat" where
  "pow2 e = (if 0 \<le> e then 2 ^ nat e else 1 / 2 ^ nat (- e))"

definition pow10 :: "int \<Rightarrow> rat" where
  "pow10 e = (if 0 \<le> e then 10 ^ nat e else 1 / 10 ^ nat (- e))"

text \<open>\<open>ilog2 a\<close> is \<open>\<lfloor>log\<^sub>2 a\<rfloor>\<close> for a positive rational \<open>a\<close>.\<close>

definition ilog2 :: "rat \<Rightarrow> int" where
  "ilog2 a = (if 1 \<le> a then bitlen \<lfloor>a\<rfloor> - 1 else - bitlen (\<lceil>1 / a\<rceil> - 1))"

definition round_half_even :: "rat \<Rightarrow> int" where
  "round_half_even x =
     (let f = \<lfloor>x\<rfloor>; d = x - of_int f
      in if d < 1 / 2 then f
         else if 1 / 2 < d then f + 1
         else if even f then f else f + 1)"

text \<open>
  Rounding of an exact result to binary64: 53 significant bits, least exponent \<open>-1022\<close>
  (below it the spacing stays \<open>2\<^sup>-\<^sup>1\<^sup>0\<^sup>7\<^sup>4\<close>: subnormals), overflow to an infinity from
  \<open>2\<^sup>1\<^sup>0\<^sup>2\<^sup>4\<close> on, underflow to a zero that keeps the sign.
\<close>

definition round64 :: "rat \<Rightarrow> number" where
  "round64 q =
     (if q = 0 then Dbl 0
      else
        let a = \<bar>q\<bar>;
            e = max (ilog2 a) (- 1022);
            u = pow2 (e - 52);
            r = of_int (round_half_even (a / u)) * u
        in if pow2 1024 \<le> r then (if q < 0 then NegInf else PosInf)
           else if r = 0 then (if q < 0 then NegZero else Dbl 0)
           else Dbl (if q < 0 then - r else r))"

datatype magnitude = MNaN | MInf | MFin rat

fun magnitude_of :: "number \<Rightarrow> magnitude" where
  "magnitude_of NaN = MNaN"
| "magnitude_of PosInf = MInf"
| "magnitude_of NegInf = MInf"
| "magnitude_of NegZero = MFin 0"
| "magnitude_of (Dbl r) = MFin \<bar>r\<bar>"

fun is_negative :: "number \<Rightarrow> bool" where
  "is_negative NaN = False"
| "is_negative PosInf = False"
| "is_negative NegInf = True"
| "is_negative NegZero = True"
| "is_negative (Dbl r) = (r < 0)"

definition signed_inf :: "bool \<Rightarrow> number" where
  "signed_inf neg = (if neg then NegInf else PosInf)"

definition signed_zero :: "bool \<Rightarrow> number" where
  "signed_zero neg = (if neg then NegZero else Dbl 0)"

definition signed_rat :: "bool \<Rightarrow> rat \<Rightarrow> rat" where
  "signed_rat neg a = (if neg then - a else a)"

text \<open>The operator \<^verbatim>\<open>/\<close> on numbers (Number::divide).\<close>

definition num_divide :: "number \<Rightarrow> number \<Rightarrow> number" where
  "num_divide x y =
     (let neg = (is_negative x \<noteq> is_negative y)
      in case (magnitude_of x, magnitude_of y) of
           (MNaN, _) \<Rightarrow> NaN
         | (_, MNaN) \<Rightarrow> NaN
         | (MInf, MInf) \<Rightarrow> NaN
         | (MInf, MFin b) \<Rightarrow> signed_inf neg
         | (MFin a, MInf) \<Rightarrow> signed_zero neg
         | (MFin a, MFin b) \<Rightarrow>
             if b = 0 then (if a = 0 then NaN else signed_inf neg)
             else if a = 0 then signed_zero neg
             else round64 (signed_rat neg (a / b)))"

text \<open>The operator \<^verbatim>\<open>*\<close> on numbers (Number::multiply).\<close>

definition num_multiply :: "number \<Rightarrow> number \<Rightarrow> number" where
  "num_multiply x y =
     (let neg = (is_negative x \<noteq> is_negative y)
      in case (magnitude_of x, magnitude_of y) of
           (MNaN, _) \<Rightarrow> NaN
         | (_, MNaN) \<Rightarrow> NaN
         | (MInf, MInf) \<Rightarrow> signed_inf neg
         | (MInf, MFin b) \<Rightarrow> (if b = 0 then NaN else signed_inf neg)
         | (MFin a, MInf) \<Rightarrow> (if a = 0 then NaN else signed_inf neg)
         | (MFin a, MFin b) \<Rightarrow>
             if a = 0 \<or> b = 0 then signed_zero neg
             else round64 (signed_rat neg (a * b)))"

text \<open>\<^verbatim>\<open>Number(b)\<close> for a bigint \<open>b\<close>: the nearest double.\<close>

definition Number_of_BigInt :: "int \<Rightarrow> number" where
  "Number_of_BigInt b = round64 (of_int b)"

subsection \<open>\<^verbatim>\<open>Number.prototype.toString\<close>\<close>

definition digit_char :: "int \<Rightarrow> char" where
  "digit_char d = ''0123456789'' ! nat (d mod 10)"

text \<open>The decimal digits of a non-negative integer.\<close>

function digits10 :: "int \<Rightarrow> string" where
  "digits10 n = (if n < 10 then [digit_char n] else digits10 (n div 10) @ [digit_char (n mod 10)])"
  by pat_completeness auto
termination
  by (relation "measure nat") auto

declare digits10.simps [simp del]

text \<open>\<open>ilog10 a\<close> is \<open>\<lfloor>log\<^sub>1\<^sub>0 a\<rfloor>\<close> for a positive rational \<open>a\<close>.\<close>

definition ilog10 :: "rat \<Rightarrow> int" where
  "ilog10 a =
     (if 1 \<le> a then int (length (digits10 \<lfloor>a\<rfloor>)) - 1
      else - int (length (digits10 (\<lceil>1 / a\<rceil> - 1))))"

text \<open>
  The digits of a positive double \<open>v\<close>: integers \<open>s\<close> and \<open>n\<close> with \<open>k\<close> digits in \<open>s\<close>,
  \<open>s \<times> 10\<^sup>n\<^sup>-\<^sup>k\<close> a decimal that rounds to \<open>v\<close>, and \<open>k\<close> as small as possible; among two
  such \<open>s\<close> the one nearest to \<open>v\<close> (the even one when both are as near). For \<open>k\<close>
  digits the only decimals to try are the two that enclose \<open>v\<close>: \<open>n0\<close> is the number of
  digits of \<open>v\<close> before the point, the lower decimal has the digits \<open>\<lfloor>v / 10\<^sup>n\<^sup>0\<^sup>-\<^sup>k\<rfloor>\<close>
  and the upper one the next integer. Seventeen digits always identify a double, so the
  search ends there.
\<close>

definition decimal :: "int \<Rightarrow> nat \<Rightarrow> int \<Rightarrow> rat" where
  "decimal s k n0 = of_int s * pow10 (n0 - int k)"

definition lower_digits :: "nat \<Rightarrow> rat \<Rightarrow> int \<Rightarrow> int" where
  "lower_digits k v n0 = \<lfloor>v / pow10 (n0 - int k)\<rfloor>"

definition rounds_to :: "int \<Rightarrow> nat \<Rightarrow> int \<Rightarrow> rat \<Rightarrow> bool" where
  "rounds_to s k n0 v = (round64 (decimal s k n0) = Dbl v)"

text \<open>The upper decimal may need one digit more: \<open>10\<^sup>k\<close> is written \<open>10\<^sup>k\<^sup>-\<^sup>1\<close>, one place up.\<close>

definition upper_digits :: "nat \<Rightarrow> rat \<Rightarrow> int \<Rightarrow> int \<times> int" where
  "upper_digits k v n0 =
     (let hi = lower_digits k v n0 + 1
      in if hi = 10 ^ k then (10 ^ (k - 1), n0 + 1) else (hi, n0))"

definition nearest :: "nat \<Rightarrow> rat \<Rightarrow> int \<Rightarrow> int \<times> int" where
  "nearest k v n0 =
     (let lo = lower_digits k v n0;
          below = v - decimal lo k n0;
          above = decimal (lo + 1) k n0 - v
      in if below < above \<or> (below = above \<and> even lo) then (lo, n0) else upper_digits k v n0)"

definition candidate :: "nat \<Rightarrow> rat \<Rightarrow> int \<Rightarrow> (int \<times> int) option" where
  "candidate k v n0 =
     (let lo = lower_digits k v n0;
          lo_ok = rounds_to lo k n0 v;
          hi_ok = rounds_to (lo + 1) k n0 v
      in if lo_ok \<and> hi_ok then Some (nearest k v n0)
         else if lo_ok then Some (lo, n0)
         else if hi_ok then Some (upper_digits k v n0)
         else None)"

function shortest :: "nat \<Rightarrow> rat \<Rightarrow> int \<Rightarrow> int \<times> int" where
  "shortest k v n0 =
     (if 17 \<le> k then nearest k v n0
      else (case candidate k v n0 of
              Some r \<Rightarrow> r
            | None \<Rightarrow> shortest (Suc k) v n0))"
  by pat_completeness auto
termination
  by (relation "measure (\<lambda>(k, v, n0). 17 - k)") auto

declare shortest.simps [simp del]

definition format_digits :: "int \<Rightarrow> int \<Rightarrow> string" where
  "format_digits s n =
     (let ds = digits10 s; k = int (length ds)
      in if - 5 \<le> n \<and> n \<le> 21 then
           (if k \<le> n then ds @ replicate (nat (n - k)) CHR ''0''
            else if 0 < n then take (nat n) ds @ ''.'' @ drop (nat n) ds
            else ''0.'' @ replicate (nat (- n)) CHR ''0'' @ ds)
         else
           (let e = n - 1;
                ex = (if e < 0 then ''-'' else ''+'') @ digits10 \<bar>e\<bar>
            in if k = 1 then ds @ ''e'' @ ex
               else take 1 ds @ ''.'' @ drop 1 ds @ ''e'' @ ex))"

definition positive_toString :: "rat \<Rightarrow> string" where
  "positive_toString v = (case shortest 1 v (ilog10 v + 1) of (s, n) \<Rightarrow> format_digits s n)"

fun Number_toString :: "number \<Rightarrow> string" where
  "Number_toString NaN = ''NaN''"
| "Number_toString PosInf = ''Infinity''"
| "Number_toString NegInf = ''-Infinity''"
| "Number_toString NegZero = ''0''"
| "Number_toString (Dbl r) =
     (if r = 0 then ''0''
      else if r < 0 then ''-'' @ positive_toString (- r)
      else positive_toString r)"

text \<open>
  The characters of a rendered number: digits, point, signs, the exponent mark and the
  letters of \<^verbatim>\<open>Infinity\<close> and \<^verbatim>\<open>NaN\<close>. No space and no comma is among them.
\<close>

definition number_characters :: string where
  "number_characters = ''0123456789.-+eInfityNa''"

subsection \<open>Strings and bigints\<close>

text \<open>\<^verbatim>\<open>s.split(c)\<close> for a separator of one character.\<close>

fun split_on :: "char \<Rightarrow> string \<Rightarrow> string list" where
  "split_on c [] = [[]]"
| "split_on c (x # xs) =
     (if x = c then [] # split_on c xs
      else (case split_on c xs of
              [] \<Rightarrow> [[x]]
            | y # ys \<Rightarrow> (x # y) # ys))"

text \<open>Reading an array at an index: \<^verbatim>\<open>undefined\<close> (here \<open>None\<close>) past its end.\<close>

definition element_at :: "'a list \<Rightarrow> nat \<Rightarrow> 'a option" where
  "element_at xs i = (if i < length xs then Some (xs ! i) else None)"

text \<open>
  \<^verbatim>\<open>StringToBigInt\<close>: white space is trimmed, the empty string is \<open>0\<close>, then either a
  decimal literal with an optional sign or an unsigned literal in base 16, 8 or 2.
  Characters are code units below 256.
\<close>

definition is_whitespace :: "char \<Rightarrow> bool" where
  "is_whitespace c = (of_char c \<in> {9, 10, 11, 12, 13, 32, 160 :: nat})"

definition trim :: "string \<Rightarrow> string" where
  "trim s = rev (dropWhile is_whitespace (rev (dropWhile is_whitespace s)))"

definition digit_value :: "char \<Rightarrow> int option" where
  "digit_value c =
     map_of
       [(CHR ''0'', 0), (CHR ''1'', 1), (CHR ''2'', 2), (CHR ''3'', 3), (CHR ''4'', 4),
        (CHR ''5'', 5), (CHR ''6'', 6), (CHR ''7'', 7), (CHR ''8'', 8), (CHR ''9'', 9),
        (CHR ''a'', 10), (CHR ''b'', 11), (CHR ''c'', 12), (CHR ''d'', 13), (CHR ''e'', 14),
        (CHR ''f'', 15), (CHR ''A'', 10), (CHR ''B'', 11), (CHR ''C'', 12), (CHR ''D'', 13),
        (CHR ''E'', 14), (CHR ''F'', 15)] c"

fun parse_digits :: "int \<Rightarrow> int \<Rightarrow> string \<Rightarrow> int option" where
  "parse_digits base acc [] = Some acc"
| "parse_digits base acc (c # cs) =
     (case digit_value c of
        None \<Rightarrow> None
      | Some d \<Rightarrow> if d < base then parse_digits base (acc * base + d) cs else None)"

definition parse_literal :: "int \<Rightarrow> string \<Rightarrow> int option" where
  "parse_literal base ds = (if ds = [] then None else parse_digits base 0 ds)"

definition StringToBigInt :: "string \<Rightarrow> int option" where
  "StringToBigInt str =
     (let t = trim str
      in if t = [] then Some 0
         else if take 2 t = ''0x'' \<or> take 2 t = ''0X'' then parse_literal 16 (drop 2 t)
         else if take 2 t = ''0o'' \<or> take 2 t = ''0O'' then parse_literal 8 (drop 2 t)
         else if take 2 t = ''0b'' \<or> take 2 t = ''0B'' then parse_literal 2 (drop 2 t)
         else if take 1 t = ''-'' then map_option uminus (parse_literal 10 (drop 1 t))
         else if take 1 t = ''+'' then parse_literal 10 (drop 1 t)
         else parse_literal 10 t)"

text \<open>
  \<^verbatim>\<open>BigInt(v)\<close> for \<open>v\<close> a string or \<^verbatim>\<open>undefined\<close>: a TypeError for \<^verbatim>\<open>undefined\<close>, a
  SyntaxError for a string that is no integer literal. The messages are those of V8,
  the engine of Node.js; no property below depends on their wording.
\<close>

definition BigInt :: "string option \<Rightarrow> js_error + int" where
  "BigInt v =
     (case v of
        None \<Rightarrow> Inl (TypeError ''Cannot convert undefined to a BigInt'')
      | Some str \<Rightarrow>
          (case StringToBigInt str of
             None \<Rightarrow> Inl (SyntaxError (''Cannot convert '' @ str @ '' to a BigInt''))
           | Some b \<Rightarrow> Inr b))"

text \<open>The operator \<^verbatim>\<open>||\<close> where the left operand is a string, \<^verbatim>\<open>undefined\<close> or \<^verbatim>\<open>null\<close>.\<close>

definition or_string :: "string option \<Rightarrow> string \<Rightarrow> string" where
  "or_string v d = (case v of None \<Rightarrow> d | Some str \<Rightarrow> if str = [] then d else str)"

definition or_null :: "string option \<Rightarrow> string option" where
  "or_null v = (case v of None \<Rightarrow> None | Some str \<Rightarrow> if str = [] then None else Some str)"

text \<open>The operator \<^verbatim>\<open>||\<close> where the left operand is an object or \<^verbatim>\<open>undefined\<close>.\<close>

definition or_object :: "'a option \<Rightarrow> 'a \<Rightarrow> 'a" where
  "or_object v d = (case v of None \<Rightarrow> d | Some obj \<Rightarrow> obj)"

section \<open>Data model\<close>

text \<open>
  Modelled from the spec: the type declarations of \<^verbatim>\<open>@/lib/validation/types\<close>
  (PositionSchema, AlchemyNftSchema, AuctionApiSchema) are not among the sources. The
  records below have the fields the two source files read, with the names the sources
  use; a field that the code reads through \<^verbatim>\<open>?.\<close> or guards with \<^verbatim>\<open>||\<close> may be
  absent (\<open>None\<close>). \<open>position_id\<close> is the field \<^verbatim>\<open>id\<close> of a position and
  \<open>account_id\<close> the field \<^verbatim>\<open>id\<close> of an account, \<open>pool_oracle\<close> the field \<^verbatim>\<open>oracle\<close> of a pool; \<open>nft_tokenId\<close> is the field
  \<^verbatim>\<open>tokenId\<close> of an NFT record.
\<close>

record AlchemyContract =
  address :: "string option"
  name :: "string option"
  symbol :: "string option"

record AlchemyNftSchema =
  contract :: "AlchemyContract option"
  nft_tokenId :: "string option"

text \<open>The object \<^verbatim>\<open>{}\<close>: every field is absent.\<close>

definition empty_object :: AlchemyNftSchema where
  "empty_object = \<lparr>contract = None, nft_tokenId = None\<rparr>"

record Account =
  account_id :: "string option"

record Pool =
  totalBorrowShares :: number
  totalBorrowAssets :: number
  pool_oracle :: string
  loanAddress :: "string option"

record PositionSchema =
  position_id :: "string option"
  account :: "Account option"
  pool :: Pool
  tokenId :: "string option"
  bidder :: "string option"
  borrowShares :: number

record AuctionApiSchema =
  nftData :: "AlchemyNftSchema option"
  isLiquidatableStatus :: bool
  position :: PositionSchema
  floorPrice :: string
  debt :: string

subsection \<open>The table of liquidations\<close>

text \<open>
  Modelled from the spec: the Prisma schema of the table \<^verbatim>\<open>liquidation\<close> is not among
  the sources. A row has the columns the service writes (here with the suffix \<open>_col\<close>);
  the pair of \<open>addressIP_col\<close> and \<open>tokenId_col\<close> is the unique key that the service
  names \<^verbatim>\<open>addressIP_tokenId\<close>. The columns an update writes are the record
  \<open>LiquidationUpdate\<close>; a row extends it by the two key columns.
\<close>

record LiquidationUpdate =
  nftName_col :: string
  nftSymbol_col :: string
  isLiquidatableStatus_col :: bool
  positionAccount_col :: string
  loanAddress_col :: string
  floorPrice_col :: string
  debt_col :: string
  bidder_col :: "string option"

record Liquidation = LiquidationUpdate +
  addressIP_col :: string
  tokenId_col :: string

definition addressIP_tokenId :: "Liquidation \<Rightarrow> string \<times> string" where
  "addressIP_tokenId row = (addressIP_col row, tokenId_col row)"

text \<open>The argument of \<^verbatim>\<open>prisma.liquidation.upsert\<close>.\<close>

record upsert_args =
  where_addressIP_tokenId :: "string \<times> string"
  update_data :: LiquidationUpdate
  create_data :: Liquidation

section \<open>The outside world\<close>

text \<open>
  The route talks to a GraphQL indexer, a REST endpoint and two contracts. Their answers
  are not under the program's control: each call takes the state \<open>'w\<close> of the world and
  returns an answer, or the value it throws, and the next state.
\<close>

record 'a response =
  status :: int
  json :: "js_error + 'a"

text \<open>\<^verbatim>\<open>response.ok\<close>: the status is in the range 200 to 299.\<close>

definition ok :: "'a response \<Rightarrow> bool" where
  "ok r = (200 \<le> status r \<and> status r \<le> 299)"

record graphql_data =
  positions :: "PositionSchema list"

record graphql_body =
  data :: "graphql_data option"

record nft_body =
  ownedNfts :: "AlchemyNftSchema list"

text \<open>
  The calls the route makes. \<open>fetch_graphql\<close> is the POST of the fixed query to the
  indexer and \<open>fetch_nft\<close> the GET of the NFT endpoint for the configured owner and
  contract; \<open>unhealthyList\<close> is \<^verbatim>\<open>client.readContract\<close> of the function
  \<^verbatim>\<open>unhealthyList\<close> of the lending contract with the arguments pool id and token id,
  and \<open>getPrice\<close> that of the function \<^verbatim>\<open>getPrice\<close> of the oracle at the given
  address with the argument token id. The ABIs, the addresses and the configuration
  (\<^verbatim>\<open>@/lib/abi/auctionApiABI\<close>, \<^verbatim>\<open>@/constants/config\<close>, the environment) are not
  among the sources; they are fixed for a deployment and part of these four functions.
  \<open>serve\<close> is the database at work: given the upserts in flight, oldest first, it says
  which one is completed next (the number counts from the oldest, modulo how many are
  in flight) and whether it is rejected, and with what error.
\<close>

record 'w env =
  fetch_graphql :: "'w \<Rightarrow> (js_error + graphql_body response) \<times> 'w"
  fetch_nft :: "'w \<Rightarrow> (js_error + nft_body response) \<times> 'w"
  unhealthyList :: "string option \<Rightarrow> int \<Rightarrow> 'w \<Rightarrow> (js_error + bool) \<times> 'w"
  getPrice :: "string \<Rightarrow> int \<Rightarrow> 'w \<Rightarrow> (js_error + int) \<times> 'w"
  serve :: "upsert_args list \<Rightarrow> 'w \<Rightarrow> (nat \<times> js_error option) \<times> 'w"

text \<open>
  \<^verbatim>\<open>try { body } catch (error) { handler }\<close>: a computation returns \<open>Inr\<close> of its value or
  \<open>Inl\<close> of the value it throws. The calls of \<^verbatim>\<open>console.error\<close> in the handlers write to
  the console only and are left out.
\<close>

definition try_catch ::
  "('w \<Rightarrow> (js_error + 'a) \<times> 'w) \<Rightarrow> (js_error \<Rightarrow> 'w \<Rightarrow> (js_error + 'a) \<times> 'w) \<Rightarrow>
   'w \<Rightarrow> (js_error + 'a) \<times> 'w" where
  "try_catch body handler w =
     (case body w of
        (Inl error, w') \<Rightarrow> handler error w'
      | (Inr v, w') \<Rightarrow> (Inr v, w'))"

definition throw :: "js_error \<Rightarrow> 'w \<Rightarrow> (js_error + 'a) \<times> 'w" where
  "throw error w = (Inl error, w)"

definition return_value :: "'a \<Rightarrow> 'w \<Rightarrow> (js_error + 'a) \<times> 'w" where
  "return_value v w = (Inr v, w)"

section \<open>The route: \<^verbatim>\<open>src/app/api/auction/route.ts\<close>\<close>

text \<open>
  The arguments of the read in \<open>checkLiquidatableStatus\<close>: the position id is split at
  \<^verbatim>\<open>-\<close>, the first two parts are the pool id and the token id, and the token id goes
  through \<^verbatim>\<open>BigInt\<close>, which may throw.
\<close>

definition unhealthyList_args :: "PositionSchema \<Rightarrow> js_error + (string option \<times> int)" where
  "unhealthyList_args p =
     (let parts = (case position_id p of None \<Rightarrow> [] | Some s \<Rightarrow> split_on CHR ''-'' s);
          poolId = element_at parts 0;
          token = element_at parts 1
      in case BigInt token of
           Inl error \<Rightarrow> Inl error
         | Inr t \<Rightarrow> Inr (poolId, t))"

definition checkLiquidatableStatus ::
  "'w env \<Rightarrow> PositionSchema \<Rightarrow> 'w \<Rightarrow> (js_error + bool) \<times> 'w" where
  "checkLiquidatableStatus env p =
     try_catch
       (\<lambda>w. case unhealthyList_args p of
               Inl error \<Rightarrow> (Inl error, w)
             | Inr (poolId, t) \<Rightarrow> unhealthyList env poolId t w)
       (\<lambda>error. return_value False)"

definition fetchFloorPrice ::
  "'w env \<Rightarrow> string \<Rightarrow> int \<Rightarrow> 'w \<Rightarrow> (js_error + number) \<times> 'w" where
  "fetchFloorPrice env oracleAddress t =
     try_catch
       (\<lambda>w. case getPrice env oracleAddress t w of
               (Inl error, w') \<Rightarrow> (Inl error, w')
             | (Inr price, w') \<Rightarrow> (Inr (Number_of_BigInt price), w'))
       (\<lambda>error. return_value (Dbl 0))"

definition calculateDebt :: "PositionSchema \<Rightarrow> string" where
  "calculateDebt p =
     Number_toString
       (num_multiply
          (num_divide (borrowShares p) (totalBorrowShares (pool p)))
          (totalBorrowAssets (pool p)))"

definition fetchGraphQLPositions :: "'w env \<Rightarrow> 'w \<Rightarrow> (js_error + PositionSchema list) \<times> 'w" where
  "fetchGraphQLPositions env =
     try_catch
       (\<lambda>w. case fetch_graphql env w of
               (Inl error, w') \<Rightarrow> (Inl error, w')
             | (Inr response, w') \<Rightarrow>
                 if \<not> ok response then
                   throw (Error (''GraphQL request failed with status '' @ digits10 (status response))) w'
                 else
                   (case json response of
                      Inl error \<Rightarrow> (Inl error, w')
                    | Inr responseData \<Rightarrow>
                        (case data responseData of
                           None \<Rightarrow>
                             throw (TypeError ''Cannot read properties of undefined (reading 'positions')'') w'
                         | Some d \<Rightarrow> (Inr (positions d), w'))))
       throw"

definition fetchNFTData :: "'w env \<Rightarrow> 'w \<Rightarrow> (js_error + nft_body) \<times> 'w" where
  "fetchNFTData env =
     try_catch
       (\<lambda>w. case fetch_nft env w of
               (Inl error, w') \<Rightarrow> (Inl error, w')
             | (Inr response, w') \<Rightarrow>
                 if \<not> ok response then
                   throw (Error (''NFT data fetch failed with status '' @ digits10 (status response))) w'
                 else (json response, w'))
       throw"

text \<open>
  One turn of the loop over the positions: the thrown value, or \<open>Some\<close> of the record
  that is pushed on the result, or \<open>None\<close> when nothing is pushed.
\<close>

definition iteration ::
  "'w env \<Rightarrow> nft_body \<Rightarrow> PositionSchema \<Rightarrow> 'w \<Rightarrow> (js_error + AuctionApiSchema option) \<times> 'w" where
  "iteration env nfts p w =
     (case checkLiquidatableStatus env p w of
        (Inl error, w1) \<Rightarrow> (Inl error, w1)
      | (Inr status_p, w1) \<Rightarrow>
          if status_p then
            (case BigInt (tokenId p) of
               Inl error \<Rightarrow> (Inl error, w1)
             | Inr t \<Rightarrow>
                 (case fetchFloorPrice env (pool_oracle (pool p)) t w1 of
                    (Inl error, w2) \<Rightarrow> (Inl error, w2)
                  | (Inr price, w2) \<Rightarrow>
                      let nftArteData = find (\<lambda>nft. nft_tokenId nft = tokenId p) (ownedNfts nfts)
                      in (Inr (Some
                            \<lparr>nftData = Some (or_object nftArteData empty_object),
                             isLiquidatableStatus = status_p,
                             position = p,
                             floorPrice = Number_toString price,
                             debt = calculateDebt p\<rparr>), w2)))
          else (Inr None, w1))"

fun for_positions ::
  "'w env \<Rightarrow> nft_body \<Rightarrow> PositionSchema list \<Rightarrow> AuctionApiSchema list \<Rightarrow> 'w \<Rightarrow>
   (js_error + AuctionApiSchema list) \<times> 'w" where
  "for_positions env nfts [] result w = (Inr result, w)"
| "for_positions env nfts (p # ps) result w =
     (case iteration env nfts p w of
        (Inl error, w') \<Rightarrow> (Inl error, w')
      | (Inr None, w') \<Rightarrow> for_positions env nfts ps result w'
      | (Inr (Some r), w') \<Rightarrow> for_positions env nfts ps (result @ [r]) w')"

definition getAllLiquidatable :: "'w env \<Rightarrow> 'w \<Rightarrow> (js_error + AuctionApiSchema list) \<times> 'w" where
  "getAllLiquidatable env =
     try_catch
       (\<lambda>w. case fetchGraphQLPositions env w of
               (Inl error, w1) \<Rightarrow> (Inl error, w1)
             | (Inr ps, w1) \<Rightarrow>
                 (case fetchNFTData env w1 of
                    (Inl error, w2) \<Rightarrow> (Inl error, w2)
                  | (Inr nfts, w2) \<Rightarrow> for_positions env nfts ps [] w2))
       throw"

section \<open>Persistence: \<^verbatim>\<open>src/services/liquidation-service.ts\<close>\<close>

text \<open>
  The database: the rows of the table, and every upsert it has received, oldest first.
  An upsert is one transaction: it updates the row that has the key, or inserts the row
  to create when no row has it, and returns the row it wrote.
\<close>

record database =
  liquidation :: "Liquidation list"
  received :: "upsert_args list"

definition apply_update :: "LiquidationUpdate \<Rightarrow> Liquidation \<Rightarrow> Liquidation" where
  "apply_update u row =
     row\<lparr>nftName_col := nftName_col u,
         nftSymbol_col := nftSymbol_col u,
         isLiquidatableStatus_col := isLiquidatableStatus_col u,
         positionAccount_col := positionAccount_col u,
         loanAddress_col := loanAddress_col u,
         floorPrice_col := floorPrice_col u,
         debt_col := debt_col u,
         bidder_col := bidder_col u\<rparr>"

fun upsert_rows :: "upsert_args \<Rightarrow> Liquidation list \<Rightarrow> Liquidation \<times> Liquidation list" where
  "upsert_rows a [] = (create_data a, [create_data a])"
| "upsert_rows a (row # rows) =
     (if addressIP_tokenId row = where_addressIP_tokenId a
      then (apply_update (update_data a) row, apply_update (update_data a) row # rows)
      else (case upsert_rows a rows of (written, rows') \<Rightarrow> (written, row # rows')))"

text \<open>The argument that \<^verbatim>\<open>upsertLiquidations\<close> builds for one record.\<close>

definition upsert_of :: "AuctionApiSchema \<Rightarrow> upsert_args" where
  "upsert_of l =
     \<lparr>where_addressIP_tokenId =
        (or_string (Option.bind (Option.bind (nftData l) contract) address) [],
         or_string (tokenId (position l)) []),
      update_data =
        \<lparr>nftName_col = or_string (Option.bind (Option.bind (nftData l) contract) name) [],
         nftSymbol_col = or_string (Option.bind (Option.bind (nftData l) contract) symbol) [],
         isLiquidatableStatus_col = isLiquidatableStatus l,
         positionAccount_col = or_string (Option.bind (account (position l)) account_id) [],
         loanAddress_col = or_string (loanAddress (pool (position l))) [],
         floorPrice_col = or_string (Some (floorPrice l)) ''0'',
         debt_col = or_string (Some (debt l)) ''0'',
         bidder_col = or_null (bidder (position l))\<rparr>,
      create_data =
        \<lparr>nftName_col = or_string (Option.bind (Option.bind (nftData l) contract) name) [],
         nftSymbol_col = or_string (Option.bind (Option.bind (nftData l) contract) symbol) [],
         isLiquidatableStatus_col = isLiquidatableStatus l,
         positionAccount_col = or_string (Option.bind (account (position l)) account_id) [],
         loanAddress_col = or_string (loanAddress (pool (position l))) [],
         floorPrice_col = or_string (Some (floorPrice l)) ''0'',
         debt_col = or_string (Some (debt l)) ''0'',
         bidder_col = or_null (bidder (position l)),
         addressIP_col = or_string (Option.bind (Option.bind (nftData l) contract) address) [],
         tokenId_col = or_string (tokenId (position l)) []\<rparr>\<rparr>"

text \<open>
  \<^verbatim>\<open>upsertLiquidations\<close> maps the records to promises, which issues every upsert, in
  the order of the list, before any is awaited; \<^verbatim>\<open>Promise.all\<close> then waits for them.
  The upserts in flight are completed by the database in an order of its own, and it may
  reject any of them: \<open>serve\<close> says which of those in flight is completed next and
  whether it is rejected. A rejected upsert leaves the table as it is. When nothing is
  left in flight, \<^verbatim>\<open>Promise.all\<close> has fulfilled with the rows written, in the order of
  the list, if no upsert was rejected, and has rejected with the error of the first
  rejection otherwise; the upserts then still in flight are completed all the same.
  \<open>settle_all env in_flight fulfilled rejection w rows\<close>: the upserts in flight with
  their places in the list, the rows written so far with theirs, the first rejection
  if there was one, the world and the table.
\<close>

definition without :: "nat \<Rightarrow> 'a list \<Rightarrow> 'a list" where
  "without i xs = take i xs @ drop (Suc i) xs"

function settle_all ::
  "'w env \<Rightarrow> (nat \<times> upsert_args) list \<Rightarrow> (nat \<times> Liquidation) list \<Rightarrow> js_error option \<Rightarrow>
   'w \<Rightarrow> Liquidation list \<Rightarrow> (js_error + Liquidation list) \<times> 'w \<times> Liquidation list" where
  "settle_all env in_flight fulfilled rejection w rows =
     (if in_flight = [] then
        ((case rejection of None \<Rightarrow> Inr (map snd fulfilled) | Some error \<Rightarrow> Inl error), w, rows)
      else
        (case serve env (map snd in_flight) w of
           ((k, outcome), w') \<Rightarrow>
             (case in_flight ! (k mod length in_flight) of
                (place, a) \<Rightarrow>
                  (case outcome of
                     Some error \<Rightarrow>
                       settle_all env (without (k mod length in_flight) in_flight) fulfilled
                         (case rejection of None \<Rightarrow> Some error | Some first \<Rightarrow> Some first) w' rows
                   | None \<Rightarrow>
                       (case upsert_rows a rows of
                          (written, rows') \<Rightarrow>
                            settle_all env (without (k mod length in_flight) in_flight)
                              (insort_key fst (place, written) fulfilled) rejection w' rows')))))"
  by pat_completeness auto
termination
proof -
  have shorter: "length (without (k mod length xs) xs) < length xs"
    if "xs \<noteq> []" for k and xs :: "(nat \<times> upsert_args) list"
  proof -
    from that have "k mod length xs < length xs"
      by simp
    then show ?thesis
      by (simp add: without_def)
  qed
  show ?thesis
    by (relation "measure (\<lambda>(env, in_flight, fulfilled, rejection, w, rows). length in_flight)")
      (simp_all add: shorter)
qed

declare settle_all.simps [simp del]

definition upsertLiquidations ::
  "'w env \<Rightarrow> AuctionApiSchema list \<Rightarrow> 'w \<times> database \<Rightarrow>
   (js_error + Liquidation list) \<times> 'w \<times> database" where
  "upsertLiquidations env liquidations s =
     (case s of (w, db) \<Rightarrow>
        let liquidationOperations = map upsert_of liquidations
        in case settle_all env (enumerate 0 liquidationOperations) [] None w (liquidation db) of
             (outcome, w', rows') \<Rightarrow>
               (outcome, w',
                \<lparr>liquidation = rows', received = received db @ liquidationOperations\<rparr>))"

definition getAllLiquidations :: "database \<Rightarrow> Liquidation list" where
  "getAllLiquidations db = liquidation db"

text \<open>The table after the database has run the given upserts one after the other.\<close>

definition run_in_order :: "upsert_args list \<Rightarrow> Liquidation list \<Rightarrow> Liquidation list" where
  "run_in_order order rows = fold (\<lambda>a rows. snd (upsert_rows a rows)) order rows"

section \<open>The handler\<close>

datatype reply_body =
    Results "AuctionApiSchema list"
  | ErrorBody (error_field: string) (details_field: string)

record reply =
  reply_status :: int
  reply_body :: reply_body

text \<open>The reply of the \<^verbatim>\<open>catch\<close> of the handler.\<close>

definition error_reply :: "js_error \<Rightarrow> reply" where
  "error_reply error =
     \<lparr>reply_status = 500,
      reply_body =
        ErrorBody ''Failed to fetch positions''
          (if instanceof_Error error then message error else ''Unknown error'')\<rparr>"

definition GET :: "'w env \<Rightarrow> 'w \<times> database \<Rightarrow> reply \<times> 'w \<times> database" where
  "GET env s =
     (case s of (w, db) \<Rightarrow>
        (case getAllLiquidatable env w of
           (Inl error, w') \<Rightarrow> (error_reply error, w', db)
         | (Inr result, w') \<Rightarrow>
             (case upsertLiquidations env result (w', db) of
                (Inl error, w'', db') \<Rightarrow> (error_reply error, w'', db')
              | (Inr written, w'', db') \<Rightarrow>
                  (\<lparr>reply_status = 200, reply_body = Results result\<rparr>, w'', db'))))"

section \<open>What the checker returned during a run\<close>

text \<open>
  \<open>statuses env nfts ps w\<close> lists, for the positions \<open>ps\<close> in order, what
  \<open>checkLiquidatableStatus\<close> returns when the loop that starts in the world \<open>w\<close> reaches
  each position; the world moves on as the loop does.
\<close>

fun statuses :: "'w env \<Rightarrow> nft_body \<Rightarrow> PositionSchema list \<Rightarrow> 'w \<Rightarrow> (js_error + bool) list" where
  "statuses env nfts [] w = []"
| "statuses env nfts (p # ps) w =
     fst (checkLiquidatableStatus env p w) # statuses env nfts ps (snd (iteration env nfts p w))"

section \<open>Example worlds\<close>

text \<open>
  A world whose state counts the calls made so far. The indexer knows two positions; the
  lending contract reports token 7 as unhealthy and every other token as healthy; the
  oracle prices every token at 250; one NFT, with token id 7, is owned; the database
  completes the oldest upsert in flight first and rejects none.
\<close>

definition example_pool :: Pool where
  "example_pool =
     \<lparr>totalBorrowShares = Dbl 100, totalBorrowAssets = Dbl 1000,
      pool_oracle = ''0xfeed'', loanAddress = Some ''0x10a4''\<rparr>"

definition position_7 :: PositionSchema where
  "position_7 =
     \<lparr>position_id = Some ''0xabc-7'', account = Some \<lparr>account_id = Some ''0xa11ce''\<rparr>,
      pool = example_pool, tokenId = Some ''7'', bidder = None, borrowShares = Dbl 50\<rparr>"

definition position_8 :: PositionSchema where
  "position_8 =
     \<lparr>position_id = Some ''0xabc-8'', account = Some \<lparr>account_id = Some ''0xb0b''\<rparr>,
      pool = example_pool, tokenId = Some ''8'', bidder = Some ''0xb1d'', borrowShares = Dbl 10\<rparr>"

definition nft_7 :: AlchemyNftSchema where
  "nft_7 =
     \<lparr>contract = Some \<lparr>address = Some ''0xc0de'', name = Some ''Arte'', symbol = Some ''ART''\<rparr>,
      nft_tokenId = Some ''7''\<rparr>"

definition example_env :: "nat env" where
  "example_env =
     \<lparr>fetch_graphql =
        (\<lambda>w. (Inr \<lparr>status = 200,
                     json = Inr \<lparr>data = Some \<lparr>positions = [position_7, position_8]\<rparr>\<rparr>\<rparr>, Suc w)),
      fetch_nft =
        (\<lambda>w. (Inr \<lparr>status = 200, json = Inr \<lparr>ownedNfts = [nft_7]\<rparr>\<rparr>, Suc w)),
      unhealthyList = (\<lambda>poolId t w. (Inr (t = 7), Suc w)),
      getPrice = (\<lambda>oracleAddress t w. (Inr 250, Suc w)),
      serve = (\<lambda>in_flight w. ((0, None), Suc w))\<rparr>"

text \<open>The same world with the indexer answering 503.\<close>

definition env_503 :: "nat env" where
  "env_503 =
     example_env
       \<lparr>fetch_graphql :=
          (\<lambda>w. (Inr \<lparr>status = 503, json = Inl (SyntaxError ''Unexpected token'')\<rparr>, Suc w))\<rparr>"

text \<open>The same world with every contract read failing.\<close>

definition env_rpc_down :: "nat env" where
  "env_rpc_down =
     example_env
       \<lparr>unhealthyList := (\<lambda>poolId t w. (Inl (Error ''HTTP request failed''), Suc w)),
        getPrice := (\<lambda>oracleAddress t w. (Inl (Error ''HTTP request failed''), Suc w))\<rparr>"

text \<open>The same world with no NFT owned.\<close>

definition env_no_nft :: "nat env" where
  "env_no_nft =
     example_env
       \<lparr>fetch_nft := (\<lambda>w. (Inr \<lparr>status = 200, json = Inr \<lparr>ownedNfts = []\<rparr>\<rparr>, Suc w))\<rparr>"

text \<open>The record of position 7 in the first world, and in the world with no NFT.\<close>

definition record_7 :: AuctionApiSchema where
  "record_7 =
     \<lparr>nftData = Some nft_7, isLiquidatableStatus = True, position = position_7,
      floorPrice = ''250'', debt = ''500''\<rparr>"

definition record_7_no_nft :: AuctionApiSchema where
  "record_7_no_nft = record_7\<lparr>nftData := Some empty_object\<rparr>"

text \<open>The same world with the indexer knowing position 7 only.\<close>

definition env_single :: "nat env" where
  "env_single =
     example_env
       \<lparr>fetch_graphql :=
          (\<lambda>w. (Inr \<lparr>status = 200, json = Inr \<lparr>data = Some \<lparr>positions = [position_7]\<rparr>\<rparr>\<rparr>, Suc w))\<rparr>"


definition empty_database :: database where
  "empty_database = \<lparr>liquidation = [], received = []\<rparr>"

text \<open>
  The world of position 7 alone, with the indexer giving the position of id
  \<^verbatim>\<open>0xabc-7\<close> the token id \<^verbatim>\<open>8\<close>.
\<close>

definition position_7_token_8 :: PositionSchema where
  "position_7_token_8 = position_7\<lparr>tokenId := Some ''8''\<rparr>"

definition env_token_8 :: "nat env" where
  "env_token_8 =
     example_env
       \<lparr>fetch_graphql :=
          (\<lambda>w. (Inr \<lparr>status = 200,
                       json = Inr \<lparr>data = Some \<lparr>positions = [position_7_token_8]\<rparr>\<rparr>\<rparr>, Suc w))\<rparr>"

definition record_token_8 :: AuctionApiSchema where
  "record_token_8 =
     \<lparr>nftData = Some empty_object, isLiquidatableStatus = True, position = position_7_token_8,
      floorPrice = ''250'', debt = ''500''\<rparr>"

text \<open>The world of position 7 alone, with the database rejecting every upsert.\<close>

definition env_rejecting :: "nat env" where
  "env_rejecting =
     env_single\<lparr>serve := (\<lambda>in_flight w. ((0, Some (Error ''Connection lost'')), Suc w))\<rparr>"

section \<open>Exceptions\<close>

lemma try_catch_rethrow: "try_catch body throw w = body w"
  by (cases "body w") (auto simp: try_catch_def throw_def split: sum.splits)

section \<open>The checker and the oracle reader\<close>

lemma split_on_no_separator: "c \<notin> set s \<Longrightarrow> split_on c s = [s]"
  by (induction s) auto

lemma checkLiquidatableStatus_returns: "\<exists>b. fst (checkLiquidatableStatus env p w) = Inr b"
  by (auto simp: checkLiquidatableStatus_def try_catch_def return_value_def
      split: sum.splits prod.splits)

lemma checkLiquidatableStatus_read_throws:
  assumes "unhealthyList_args p = Inr (poolId, t)"
    and "unhealthyList env poolId t w = (Inl e, w')"
  shows "checkLiquidatableStatus env p w = (Inr False, w')"
  using assms by (simp add: checkLiquidatableStatus_def try_catch_def return_value_def)

lemma checkLiquidatableStatus_no_read:
  assumes "unhealthyList_args p = Inl e"
  shows "checkLiquidatableStatus env p w = (Inr False, w)"
  using assms by (simp add: checkLiquidatableStatus_def try_catch_def return_value_def)

lemma example_args_7: "unhealthyList_args position_7 = Inr (Some ''0xabc'', 7)"
  by (simp add: unhealthyList_args_def position_7_def element_at_def BigInt_def
      StringToBigInt_def trim_def is_whitespace_def parse_literal_def digit_value_def)

lemma example_args_8: "unhealthyList_args position_8 = Inr (Some ''0xabc'', 8)"
  by (simp add: unhealthyList_args_def position_8_def element_at_def BigInt_def
      StringToBigInt_def trim_def is_whitespace_def parse_literal_def digit_value_def)

text \<open>
  C3. Whatever the contract read throws, \<open>checkLiquidatableStatus\<close> returns \<open>false\<close>; and
  in no case does it throw itself.
\<close>

theorem checkLiquidatableStatus_swallows:
  "(\<exists>b. fst (checkLiquidatableStatus env p w) = Inr b) \<and>
   (\<forall>poolId t e w'.
      unhealthyList_args p = Inr (poolId, t) \<and> unhealthyList env poolId t w = (Inl e, w') \<longrightarrow>
      checkLiquidatableStatus env p w = (Inr False, w'))"
  by (simp add: checkLiquidatableStatus_returns checkLiquidatableStatus_read_throws)

theorem checkLiquidatableStatus_swallows_witness:
  "unhealthyList_args position_7 = Inr (Some ''0xabc'', 7) \<and>
   unhealthyList env_rpc_down (Some ''0xabc'') 7 0 = (Inl (Error ''HTTP request failed''), 1) \<and>
   checkLiquidatableStatus env_rpc_down position_7 0 = (Inr False, 1)"
proof -
  have args: "unhealthyList_args position_7 = Inr (Some ''0xabc'', 7)"
    by (rule example_args_7)
  have read: "unhealthyList env_rpc_down (Some ''0xabc'') 7 0 = (Inl (Error ''HTTP request failed''), 1)"
    by (simp add: env_rpc_down_def example_env_def)
  from checkLiquidatableStatus_swallows [of env_rpc_down position_7 0] args read
  have "checkLiquidatableStatus env_rpc_down position_7 0 = (Inr False, 1)"
    by blast
  with args read show ?thesis by simp
qed

text \<open>
  C4. When the oracle read throws, \<open>fetchFloorPrice\<close> returns \<open>0\<close>; and in no case does
  it throw itself.
\<close>

theorem fetchFloorPrice_swallows:
  "(\<exists>price. fst (fetchFloorPrice env oracleAddress t w) = Inr price) \<and>
   (\<forall>e w'. getPrice env oracleAddress t w = (Inl e, w') \<longrightarrow>
      fetchFloorPrice env oracleAddress t w = (Inr (Dbl 0), w'))"
  by (auto simp: fetchFloorPrice_def try_catch_def return_value_def split: sum.splits prod.splits)

theorem fetchFloorPrice_swallows_witness:
  "getPrice env_rpc_down ''0xfeed'' 7 0 = (Inl (Error ''HTTP request failed''), 1) \<and>
   fetchFloorPrice env_rpc_down ''0xfeed'' 7 0 = (Inr (Dbl 0), 1)"
proof -
  have read: "getPrice env_rpc_down ''0xfeed'' 7 0 = (Inl (Error ''HTTP request failed''), 1)"
    by (simp add: env_rpc_down_def example_env_def)
  from fetchFloorPrice_swallows [of env_rpc_down "''0xfeed''" 7 0] read
  have "fetchFloorPrice env_rpc_down ''0xfeed'' 7 0 = (Inr (Dbl 0), 1)"
    by blast
  with read show ?thesis by simp
qed

text \<open>
  C9. For a position whose id is missing, or has no \<^verbatim>\<open>-\<close> in it, the token id is
  \<^verbatim>\<open>undefined\<close>, \<^verbatim>\<open>BigInt\<close> throws a TypeError before any read is made, and
  \<open>checkLiquidatableStatus\<close> returns \<open>false\<close> in an unchanged world.
\<close>

theorem checkLiquidatableStatus_malformed_id:
  assumes "position_id p = None \<or> (\<exists>s. position_id p = Some s \<and> CHR ''-'' \<notin> set s)"
  shows "unhealthyList_args p = Inl (TypeError ''Cannot convert undefined to a BigInt'') \<and>
         checkLiquidatableStatus env p w = (Inr False, w)"
proof -
  from assms have "unhealthyList_args p = Inl (TypeError ''Cannot convert undefined to a BigInt'')"
    by (auto simp: unhealthyList_args_def element_at_def BigInt_def split_on_no_separator)
  then show ?thesis
    by (simp add: checkLiquidatableStatus_no_read)
qed

theorem checkLiquidatableStatus_malformed_id_witness:
  "checkLiquidatableStatus example_env (position_7\<lparr>position_id := Some ''0xabc7''\<rparr>) 0 = (Inr False, 0) \<and>
   checkLiquidatableStatus example_env (position_7\<lparr>position_id := None\<rparr>) 0 = (Inr False, 0)"
  using checkLiquidatableStatus_malformed_id [of "position_7\<lparr>position_id := Some ''0xabc7''\<rparr>" example_env 0]
    checkLiquidatableStatus_malformed_id [of "position_7\<lparr>position_id := None\<rparr>" example_env 0]
  by simp

section \<open>The handler when the indexer fails\<close>

lemma fetchGraphQLPositions_not_ok:
  assumes "fetch_graphql env w = (Inr response, w1)" and "\<not> ok response"
  shows "fetchGraphQLPositions env w =
         (Inl (Error (''GraphQL request failed with status '' @ digits10 (status response))), w1)"
  using assms by (simp add: fetchGraphQLPositions_def try_catch_def throw_def)

lemma getAllLiquidatable_positions_throw:
  assumes "fetchGraphQLPositions env w = (Inl e, w1)"
  shows "getAllLiquidatable env w = (Inl e, w1)"
  using assms by (simp add: getAllLiquidatable_def try_catch_def throw_def)

lemma GET_throw:
  assumes "getAllLiquidatable env w = (Inl e, w1)"
  shows "GET env (w, db) =
         (\<lparr>reply_status = 500,
           reply_body = ErrorBody ''Failed to fetch positions''
             (if instanceof_Error e then message e else ''Unknown error'')\<rparr>, w1, db)"
  using assms by (simp add: GET_def error_reply_def)

lemma digits10_503: "digits10 503 = ''503''"
  by (simp add: digits10.simps digit_char_def)

text \<open>
  C7. When the indexer answers with a status outside 200 to 299, the handler replies 500
  with an \<^verbatim>\<open>error\<close> field; the database is as before: it has received no upsert.
\<close>

theorem GET_graphql_not_ok:
  assumes "fetch_graphql env w = (Inr response, w1)" and "\<not> ok response"
  shows "GET env (w, db) =
         (\<lparr>reply_status = 500,
           reply_body = ErrorBody ''Failed to fetch positions''
             (''GraphQL request failed with status '' @ digits10 (status response))\<rparr>, w1, db)"
  using assms
  by (simp add: GET_throw getAllLiquidatable_positions_throw fetchGraphQLPositions_not_ok)

theorem GET_graphql_not_ok_witness:
  "GET env_503 (0, empty_database) =
   (\<lparr>reply_status = 500,
     reply_body = ErrorBody ''Failed to fetch positions'' ''GraphQL request failed with status 503''\<rparr>,
    1, empty_database)"
proof -
  have fetch: "fetch_graphql env_503 0 =
      (Inr \<lparr>status = 503, json = Inl (SyntaxError ''Unexpected token'')\<rparr>, 1)"
    by (simp add: env_503_def example_env_def)
  have not_ok: "\<not> ok \<lparr>status = 503, json = Inl (SyntaxError ''Unexpected token'') :: js_error + graphql_body\<rparr>"
    by (simp add: ok_def)
  from GET_graphql_not_ok [OF fetch not_ok, of empty_database] show ?thesis
    by (simp add: digits10_503)
qed

section \<open>Numbers\<close>

lemma bitlen_nonneg: "0 \<le> bitlen n"
proof (induction n rule: bitlen.induct)
  case (1 n)
  then show ?case by (subst bitlen.simps) auto
qed

lemma bitlen_positive: "0 < n \<Longrightarrow> 0 < bitlen n"
  using bitlen_nonneg [of "n div 2"] by (subst bitlen.simps) simp

lemma bitlen_bounds:
  "0 < n \<Longrightarrow> 2 ^ nat (bitlen n - 1) \<le> n \<and> n < 2 ^ nat (bitlen n)"
proof (induction n rule: bitlen.induct)
  case (1 n)
  show ?case
  proof (cases "n = 1")
    case True
    then show ?thesis by (simp add: bitlen.simps)
  next
    case False
    with "1.prems" have half: "0 < n div 2" by simp
    then have ih: "2 ^ nat (bitlen (n div 2) - 1) \<le> n div 2 \<and> n div 2 < 2 ^ nat (bitlen (n div 2))"
      using "1.IH" "1.prems" by simp
    have len: "bitlen n = 1 + bitlen (n div 2)"
      using "1.prems" by (subst bitlen.simps) simp
    from half have pos: "0 < bitlen (n div 2)" by (rule bitlen_positive)
    then have e1: "nat (bitlen n - 1) = Suc (nat (bitlen (n div 2) - 1))"
      and e2: "nat (bitlen n) = Suc (nat (bitlen (n div 2)))"
      using len by simp_all
    from ih show ?thesis
      unfolding e1 e2 by (simp; linarith)
  qed
qed

lemma round_half_even_of_int: "round_half_even (of_int k) = k"
  by (simp add: round_half_even_def)

lemma round64_of_int:
  assumes "0 < n" and "n < 2 ^ 53"
  shows "round64 (of_int n) = Dbl (of_int n)"
proof -
  define e where "e = bitlen n - 1"
  from assms(1) bitlen_bounds [of n] have lo: "2 ^ nat e \<le> n" and hi: "n < 2 ^ nat (bitlen n)"
    by (simp_all add: e_def)
  from assms(1) have e0: "0 \<le> e" using bitlen_positive [of n] by (simp add: e_def)
  have e52: "e \<le> 52"
  proof (rule ccontr)
    assume "\<not> e \<le> 52"
    then have "53 \<le> nat e" by simp
    then have "(2::int) ^ 53 \<le> 2 ^ nat e" by (intro power_increasing) simp_all
    with lo assms(2) show False by linarith
  qed
  have log: "ilog2 (of_int n) = e"
    using assms(1) by (simp add: ilog2_def e_def)
  define k where "k = nat (52 - e)"
  have u: "pow2 (e - 52) = 1 / 2 ^ k"
    using e52 by (cases "e = 52") (simp_all add: pow2_def k_def)
  have scaled: "rat_of_int n / (1 / 2 ^ k) = of_int (n * 2 ^ k)"
    by simp
  have unscaled: "rat_of_int (n * 2 ^ k) * (1 / 2 ^ k) = of_int n"
    by simp
  have small: "\<not> pow2 1024 \<le> rat_of_int n"
  proof -
    have "rat_of_int n < 2 ^ 53" using assms(2) by (metis of_int_less_numeral_power_cancel_iff)
    moreover have "(2::rat) ^ 53 \<le> 2 ^ 1024" by (intro power_increasing) simp_all
    ultimately show ?thesis by (simp add: pow2_def)
  qed
  have m: "max e (- 1022) = e" using e0 by simp
  have a: "\<bar>rat_of_int n\<bar> = of_int n" using assms(1) by simp
  have r: "rat_of_int (round_half_even (rat_of_int n / pow2 (e - 52))) * pow2 (e - 52) = of_int n"
    by (simp only: u scaled round_half_even_of_int unscaled)
  have nz: "rat_of_int n \<noteq> 0" "\<not> rat_of_int n < 0" using assms(1) by simp_all
  show ?thesis
    unfolding round64_def Let_def a log m r using nz small by simp
qed

lemma round64_numeral:
  "(numeral k :: int) < 2 ^ 53 \<Longrightarrow> round64 (numeral k) = Dbl (numeral k)"
  using round64_of_int [of "numeral k"] by simp

lemma ilog2_half: "ilog2 (1 / 2) = - 1"
  by (simp add: ilog2_def bitlen.simps)

lemma round64_half: "round64 (1 / 2) = Dbl (1 / 2)"
  by (simp add: round64_def ilog2_half pow2_def round_half_even_def Let_def)

lemma divide_50_100: "num_divide (Dbl 50) (Dbl 100) = Dbl (1 / 2)"
  by (simp add: num_divide_def signed_rat_def round64_half)

lemma multiply_half_1000: "num_multiply (Dbl (1 / 2)) (Dbl 1000) = Dbl 500"
  by (simp add: num_multiply_def signed_rat_def round64_numeral)

lemma digits10_500: "digits10 500 = ''500''"
  by (simp add: digits10.simps digit_char_def)

lemma digits10_250: "digits10 250 = ''250''"
  by (simp add: digits10.simps digit_char_def)

lemma floor_numeral_divide: "\<lfloor>numeral a / numeral b :: rat\<rfloor> = numeral a div numeral b"
  using floor_divide_of_int_eq [of "numeral a" "numeral b", where ?'a = rat] by simp

lemma candidate_500: "candidate (Suc 0) 500 3 = Some (5, 3)"
  by (simp add: candidate_def lower_digits_def rounds_to_def decimal_def pow10_def round64_numeral Let_def floor_numeral_divide)

lemma shortest_500: "shortest (Suc 0) 500 3 = (5, 3)"
  by (subst shortest.simps) (simp add: candidate_500)

lemma toString_500: "Number_toString (Dbl 500) = ''500''"
  by (simp add: positive_toString_def ilog10_def digits10_500 shortest_500
      format_digits_def digits10.simps [of 5] digit_char_def eval_nat_numeral)

lemma candidate_250_1: "candidate (Suc 0) 250 3 = None"
  by (simp add: candidate_def lower_digits_def rounds_to_def decimal_def pow10_def round64_numeral Let_def floor_numeral_divide)

lemma candidate_250_2: "candidate (Suc (Suc 0)) 250 3 = Some (25, 3)"
  by (simp add: candidate_def lower_digits_def rounds_to_def decimal_def pow10_def round64_numeral Let_def floor_numeral_divide)

lemma shortest_250: "shortest (Suc 0) 250 3 = (25, 3)"
  by (subst shortest.simps, simp add: candidate_250_1, subst shortest.simps, simp add: candidate_250_2)

lemma toString_250: "Number_toString (Dbl 250) = ''250''"
  by (simp add: positive_toString_def ilog10_def digits10_250 shortest_250
      format_digits_def digits10.simps [of 25] digits10.simps [of 2] digit_char_def)

lemma Number_250: "Number_of_BigInt 250 = Dbl 250"
  by (simp add: Number_of_BigInt_def round64_numeral)

lemma calculateDebt_position_7: "calculateDebt position_7 = ''500''"
  by (simp add: calculateDebt_def position_7_def example_pool_def divide_50_100 multiply_half_1000
      toString_500 del: Number_toString.simps)

section \<open>The loop over the positions\<close>

lemma iteration_healthy:
  assumes "checkLiquidatableStatus env p w = (Inr False, w1)"
  shows "iteration env nfts p w = (Inr None, w1)"
  using assms by (simp add: iteration_def)

lemma fetchFloorPrice_price:
  assumes "getPrice env oracleAddress t w = (Inr price, w')"
  shows "fetchFloorPrice env oracleAddress t w = (Inr (Number_of_BigInt price), w')"
  using assms by (simp add: fetchFloorPrice_def try_catch_def)

lemma iteration_liquidatable:
  assumes "checkLiquidatableStatus env p w = (Inr True, w1)"
    and "BigInt (tokenId p) = Inr t"
    and "fetchFloorPrice env (pool_oracle (pool p)) t w1 = (Inr price, w2)"
  shows "iteration env nfts p w =
    (Inr (Some \<lparr>nftData =
                   Some (or_object (find (\<lambda>nft. nft_tokenId nft = tokenId p) (ownedNfts nfts)) empty_object),
                 isLiquidatableStatus = True, position = p,
                 floorPrice = Number_toString price, debt = calculateDebt p\<rparr>), w2)"
  using assms by (simp add: iteration_def)

lemma iteration_None:
  assumes "iteration env nfts p w = (Inr None, w')"
  shows "fst (checkLiquidatableStatus env p w) = Inr False"
  using assms by (auto simp: iteration_def split: prod.splits sum.splits if_splits)

lemma iteration_Some:
  assumes "iteration env nfts p w = (Inr (Some r), w')"
  shows "fst (checkLiquidatableStatus env p w) = Inr True \<and>
         position r = p \<and> isLiquidatableStatus r \<and> debt r = calculateDebt p \<and>
         nftData r = Some (or_object (find (\<lambda>nft. nft_tokenId nft = tokenId p) (ownedNfts nfts)) empty_object)"
  using assms by (auto simp: iteration_def split: prod.splits sum.splits if_splits)

lemma for_positions_result:
  assumes "for_positions env nfts ps acc w = (Inr rs, w')"
  shows "\<exists>new. rs = acc @ new \<and>
           map position new =
             map fst (filter (\<lambda>(p, st). st = Inr True) (zip ps (statuses env nfts ps w))) \<and>
           (\<forall>r \<in> set new.
              isLiquidatableStatus r \<and> debt r = calculateDebt (position r) \<and>
              nftData r =
                Some (or_object (find (\<lambda>nft. nft_tokenId nft = tokenId (position r)) (ownedNfts nfts))
                        empty_object))"
  using assms
proof (induction ps arbitrary: acc w)
  case Nil
  then show ?case by simp
next
  case (Cons p ps)
  obtain res w1 where it: "iteration env nfts p w = (res, w1)"
    by (cases "iteration env nfts p w")
  show ?case
  proof (cases res)
    case (Inl e)
    with Cons.prems it show ?thesis by simp
  next
    case (Inr pushed)
    show ?thesis
    proof (cases pushed)
      case None
      with Inr it Cons.prems have "for_positions env nfts ps acc w1 = (Inr rs, w')"
        by simp
      from Cons.IH [OF this] obtain new where new: "rs = acc @ new"
        "map position new =
           map fst (filter (\<lambda>(p, st). st = Inr True) (zip ps (statuses env nfts ps w1)))"
        "\<forall>r \<in> set new.
           isLiquidatableStatus r \<and> debt r = calculateDebt (position r) \<and>
           nftData r =
             Some (or_object (find (\<lambda>nft. nft_tokenId nft = tokenId (position r)) (ownedNfts nfts))
                     empty_object)"
        by blast
      from None Inr it have "fst (checkLiquidatableStatus env p w) = Inr False"
        by (simp add: iteration_None)
      with new it show ?thesis by simp
    next
      case (Some r)
      with Inr it Cons.prems have "for_positions env nfts ps (acc @ [r]) w1 = (Inr rs, w')"
        by simp
      from Cons.IH [OF this] obtain new where new: "rs = (acc @ [r]) @ new"
        "map position new =
           map fst (filter (\<lambda>(p, st). st = Inr True) (zip ps (statuses env nfts ps w1)))"
        "\<forall>r \<in> set new.
           isLiquidatableStatus r \<and> debt r = calculateDebt (position r) \<and>
           nftData r =
             Some (or_object (find (\<lambda>nft. nft_tokenId nft = tokenId (position r)) (ownedNfts nfts))
                     empty_object)"
        by blast
      from Some Inr it have r: "fst (checkLiquidatableStatus env p w) = Inr True \<and>
         position r = p \<and> isLiquidatableStatus r \<and> debt r = calculateDebt p \<and>
         nftData r = Some (or_object (find (\<lambda>nft. nft_tokenId nft = tokenId p) (ownedNfts nfts)) empty_object)"
        by (simp add: iteration_Some)
      have "rs = acc @ (r # new)" using new(1) by simp
      moreover have "map position (r # new) =
          map fst (filter (\<lambda>(p, st). st = Inr True) (zip (p # ps) (statuses env nfts (p # ps) w)))"
        using new(2) r it by simp
      moreover have "\<forall>x \<in> set (r # new).
           isLiquidatableStatus x \<and> debt x = calculateDebt (position x) \<and>
           nftData x =
             Some (or_object (find (\<lambda>nft. nft_tokenId nft = tokenId (position x)) (ownedNfts nfts))
                     empty_object)"
        using new(3) r by simp
      ultimately show ?thesis by blast
    qed
  qed
qed

lemma getAllLiquidatable_loop:
  assumes "fetchGraphQLPositions env w = (Inr ps, w1)"
    and "fetchNFTData env w1 = (Inr nfts, w2)"
  shows "getAllLiquidatable env w = for_positions env nfts ps [] w2"
  using assms by (simp add: getAllLiquidatable_def try_catch_rethrow)

lemma fetchFloorPrice_returns: "\<exists>price w'. fetchFloorPrice env oracleAddress t w = (Inr price, w')"
  by (auto simp: fetchFloorPrice_def try_catch_def return_value_def split: sum.splits prod.splits)

lemma checkLiquidatableStatus_returns_pair: "\<exists>b w'. checkLiquidatableStatus env p w = (Inr b, w')"
  using checkLiquidatableStatus_returns [of env p w]
  by (cases "checkLiquidatableStatus env p w") auto

lemma for_positions_returns:
  assumes "\<forall>(p, st) \<in> set (zip ps (statuses env nfts ps w)).
             st = Inr True \<longrightarrow> (\<exists>t. BigInt (tokenId p) = Inr t)"
  shows "\<exists>rs w'. for_positions env nfts ps acc w = (Inr rs, w')"
  using assms
proof (induction ps arbitrary: acc w)
  case Nil
  show ?case by simp
next
  case (Cons p ps)
  obtain b w1 where chk: "checkLiquidatableStatus env p w = (Inr b, w1)"
    using checkLiquidatableStatus_returns_pair [of env p w] by blast
  show ?case
  proof (cases b)
    case False
    with chk have it: "iteration env nfts p w = (Inr None, w1)"
      by (simp add: iteration_healthy)
    with Cons.prems have "\<forall>(p, st) \<in> set (zip ps (statuses env nfts ps w1)).
             st = Inr True \<longrightarrow> (\<exists>t. BigInt (tokenId p) = Inr t)"
      by simp
    from Cons.IH [OF this, of acc] it show ?thesis by simp
  next
    case True
    with chk Cons.prems obtain t where tok: "BigInt (tokenId p) = Inr t"
      by auto
    obtain price w2 where price: "fetchFloorPrice env (pool_oracle (pool p)) t w1 = (Inr price, w2)"
      using fetchFloorPrice_returns [of env "pool_oracle (pool p)" t w1] by blast
    from chk True have chk': "checkLiquidatableStatus env p w = (Inr True, w1)"
      by simp
    note it = iteration_liquidatable [OF chk' tok price, of nfts]
    with Cons.prems have "\<forall>(p, st) \<in> set (zip ps (statuses env nfts ps w2)).
             st = Inr True \<longrightarrow> (\<exists>t. BigInt (tokenId p) = Inr t)"
      by simp
    from Cons.IH [OF this] it show ?thesis by simp
  qed
qed

section \<open>Upserts in flight\<close>

lemma length_without: "i < length xs \<Longrightarrow> length (without i xs) = length xs - 1"
  by (simp add: without_def)

lemma mset_without:
  assumes "i < length xs"
  shows "mset xs = add_mset (xs ! i) (mset (without i xs))"
proof -
  from assms have "xs = take i xs @ xs ! i # drop (Suc i) xs"
    by (rule id_take_nth_drop)
  then have "mset xs = mset (take i xs @ xs ! i # drop (Suc i) xs)"
    by simp
  then show ?thesis
    by (simp add: without_def)
qed

lemma settle_all_rejected:
  "fst (settle_all env in_flight fulfilled (Some e) w rows) = Inl e"
proof (induction "length in_flight" arbitrary: in_flight fulfilled w rows)
  case 0
  then show ?case by (subst settle_all.simps) simp
next
  case (Suc n)
  then have nonempty: "in_flight \<noteq> []" by auto
  obtain k outcome w1 where served: "serve env (map snd in_flight) w = ((k, outcome), w1)"
    by (metis surj_pair)
  let ?i = "k mod length in_flight"
  obtain place a where chosen: "in_flight ! ?i = (place, a)"
    by (cases "in_flight ! ?i")
  from nonempty have i: "?i < length in_flight" by simp
  with Suc.hyps(2) have len: "n = length (without ?i in_flight)"
    by (simp add: length_without)
  show ?case
  proof (cases outcome)
    case None
    obtain written rows1 where up: "upsert_rows a rows = (written, rows1)"
      by (cases "upsert_rows a rows")
    from Suc.hyps(1) [OF len, of "insort_key fst (place, written) fulfilled" w1 rows1]
    show ?thesis
      by (subst settle_all.simps) (simp add: nonempty served chosen None up)
  next
    case (Some error)
    from Suc.hyps(1) [OF len, of fulfilled w1 rows]
    show ?thesis
      by (subst settle_all.simps) (simp add: nonempty served chosen Some)
  qed
qed

lemma settle_all_fulfilled:
  assumes "settle_all env in_flight fulfilled rejection w rows = (Inr out, w', rows')"
  shows "\<exists>order. mset order = mset (map snd in_flight) \<and> rows' = run_in_order order rows"
  using assms
proof (induction "length in_flight" arbitrary: in_flight fulfilled rejection w rows)
  case 0
  then have "rows' = rows"
    by (subst (asm) settle_all.simps) (simp split: option.splits)
  with 0 have "mset [] = mset (map snd in_flight) \<and> rows' = run_in_order [] rows"
    by (simp add: run_in_order_def)
  then show ?case by blast
next
  case (Suc n)
  then have nonempty: "in_flight \<noteq> []" by auto
  obtain k outcome w1 where served: "serve env (map snd in_flight) w = ((k, outcome), w1)"
    by (metis surj_pair)
  let ?i = "k mod length in_flight"
  obtain place a where chosen: "in_flight ! ?i = (place, a)"
    by (cases "in_flight ! ?i")
  from nonempty have i: "?i < length in_flight" by simp
  with Suc.hyps(2) have len: "n = length (without ?i in_flight)"
    by (simp add: length_without)
  show ?case
  proof (cases outcome)
    case (Some error)
    have "settle_all env in_flight fulfilled rejection w rows =
        settle_all env (without ?i in_flight) fulfilled
          (Some (case rejection of None \<Rightarrow> error | Some first \<Rightarrow> first)) w1 rows"
      by (subst settle_all.simps) (simp add: nonempty served chosen Some split: option.splits)
    with settle_all_rejected [of env "without ?i in_flight" fulfilled _ w1 rows] Suc.prems
    show ?thesis
      by (metis Inl_Inr_False fst_conv)
  next
    case None
    obtain written rows1 where up: "upsert_rows a rows = (written, rows1)"
      by (cases "upsert_rows a rows")
    have "settle_all env in_flight fulfilled rejection w rows =
        settle_all env (without ?i in_flight) (insort_key fst (place, written) fulfilled)
          rejection w1 rows1"
      by (subst settle_all.simps) (simp add: nonempty served chosen None up)
    with Suc.prems have "settle_all env (without ?i in_flight)
        (insort_key fst (place, written) fulfilled) rejection w1 rows1 = (Inr out, w', rows')"
      by simp
    from Suc.hyps(1) [OF len this] obtain order where
      order: "mset order = mset (map snd (without ?i in_flight))"
      and rows': "rows' = run_in_order order rows1"
      by blast
    from mset_without [OF i] chosen
    have "mset (map snd in_flight) = add_mset a (mset (map snd (without ?i in_flight)))"
      by (metis image_mset_add_mset mset_map snd_conv)
    with order have "mset (a # order) = mset (map snd in_flight)"
      by simp
    moreover from rows' up have "rows' = run_in_order (a # order) rows"
      by (simp add: run_in_order_def)
    ultimately show ?thesis by blast
  qed
qed

lemma upsertLiquidations_received:
  "received (snd (snd (upsertLiquidations env ls (w, db)))) = received db @ map upsert_of ls"
  by (simp add: upsertLiquidations_def Let_def split: prod.splits)

lemma upsertLiquidations_fulfilled:
  assumes "upsertLiquidations env ls (w, db) = (Inr out, w', db')"
  shows "\<exists>order. mset order = mset (map upsert_of ls) \<and>
           liquidation db' = run_in_order order (liquidation db)"
proof -
  from assms obtain rows' where
    "settle_all env (enumerate 0 (map upsert_of ls)) [] None w (liquidation db) = (Inr out, w', rows')"
    and "liquidation db' = rows'"
    by (auto simp: upsertLiquidations_def Let_def split: prod.splits)
  with settle_all_fulfilled [OF this(1)] show ?thesis
    by simp
qed

lemma GET_returns:
  assumes "getAllLiquidatable env w = (Inr result, w')"
  shows "GET env (w, db) =
         (case upsertLiquidations env result (w', db) of
            (Inl error, s) \<Rightarrow> (error_reply error, s)
          | (Inr written, s) \<Rightarrow> (\<lparr>reply_status = 200, reply_body = Results result\<rparr>, s))"
  using assms by (simp add: GET_def split: prod.splits sum.splits)


lemma upsertLiquidations_single:
  assumes "serve env [upsert_of l] w = ((k, None), w')"
  shows "upsertLiquidations env [l] (w, db) =
         (Inr [fst (upsert_rows (upsert_of l) (liquidation db))], w',
          \<lparr>liquidation = snd (upsert_rows (upsert_of l) (liquidation db)),
           received = received db @ [upsert_of l]\<rparr>)"
proof -
  have "settle_all env [(0, upsert_of l)] [] None w (liquidation db) =
      (Inr [fst (upsert_rows (upsert_of l) (liquidation db))], w',
       snd (upsert_rows (upsert_of l) (liquidation db)))"
    by (subst settle_all.simps, simp add: assms without_def split: prod.splits,
        subst settle_all.simps, simp)
  then show ?thesis
    by (simp add: upsertLiquidations_def enumerate_eq_zip)
qed

lemma upsertLiquidations_single_rejected:
  assumes "serve env [upsert_of l] w = ((k, Some error), w')"
  shows "upsertLiquidations env [l] (w, db) =
         (Inl error, w', \<lparr>liquidation = liquidation db, received = received db @ [upsert_of l]\<rparr>)"
proof -
  have "settle_all env [(0, upsert_of l)] [] None w (liquidation db) =
      (Inl error, w', liquidation db)"
    by (subst settle_all.simps, simp add: assms without_def split: prod.splits,
        subst settle_all.simps, simp)
  then show ?thesis
    by (simp add: upsertLiquidations_def enumerate_eq_zip)
qed

section \<open>The records are those of the liquidatable positions\<close>

text \<open>
  C1. When the aggregation returns, its records are those of the positions for which
  \<open>checkLiquidatableStatus\<close> returned \<open>true\<close>, one for each and in the order of the fetch;
  a position for which it returned \<open>false\<close> has no record. The upserts the database
  receives are those of this very list, and the handler replies with this list, or with
  the error when the database rejects an upsert. The aggregation does return when both
  fetches succeed and the token id of every position for which the checker returned
  \<open>true\<close> is an integer literal.
\<close>

theorem getAllLiquidatable_exactly_liquidatable:
  assumes "fetchGraphQLPositions env w = (Inr ps, w1)"
    and "fetchNFTData env w1 = (Inr nfts, w2)"
  shows "(getAllLiquidatable env w = (Inr result, w') \<longrightarrow>
            map position result =
              map fst (filter (\<lambda>(p, st). st = Inr True) (zip ps (statuses env nfts ps w2))) \<and>
            (\<forall>r \<in> set result. isLiquidatableStatus r) \<and>
            fst (GET env (w, db)) =
              (case fst (upsertLiquidations env result (w', db)) of
                 Inl error \<Rightarrow> error_reply error
               | Inr written \<Rightarrow> \<lparr>reply_status = 200, reply_body = Results result\<rparr>) \<and>
            received (snd (snd (GET env (w, db)))) = received db @ map upsert_of result) \<and>
         ((\<forall>(p, st) \<in> set (zip ps (statuses env nfts ps w2)).
             st = Inr True \<longrightarrow> (\<exists>t. BigInt (tokenId p) = Inr t)) \<longrightarrow>
          (\<exists>returned w''. getAllLiquidatable env w = (Inr returned, w'')))"
proof (intro conjI impI)
  assume run: "getAllLiquidatable env w = (Inr result, w')"
  with assms have "for_positions env nfts ps [] w2 = (Inr result, w')"
    by (simp add: getAllLiquidatable_loop)
  from for_positions_result [OF this]
  show "map position result =
           map fst (filter (\<lambda>(p, st). st = Inr True) (zip ps (statuses env nfts ps w2)))"
    and "\<forall>r \<in> set result. isLiquidatableStatus r"
    by auto
  show "fst (GET env (w, db)) =
          (case fst (upsertLiquidations env result (w', db)) of
             Inl error \<Rightarrow> error_reply error
           | Inr written \<Rightarrow> \<lparr>reply_status = 200, reply_body = Results result\<rparr>)"
    by (simp add: GET_returns [OF run] split: prod.splits sum.splits)
  have "snd (snd (GET env (w, db))) = snd (snd (upsertLiquidations env result (w', db)))"
    by (simp add: GET_returns [OF run] split: prod.splits sum.splits)
  then show "received (snd (snd (GET env (w, db)))) = received db @ map upsert_of result"
    by (simp add: upsertLiquidations_received)
next
  assume "\<forall>(p, st) \<in> set (zip ps (statuses env nfts ps w2)).
             st = Inr True \<longrightarrow> (\<exists>t. BigInt (tokenId p) = Inr t)"
  from for_positions_returns [OF this, of "[]"]
  show "\<exists>returned w''. getAllLiquidatable env w = (Inr returned, w'')"
    by (simp add: getAllLiquidatable_loop [OF assms])
qed

section \<open>Runs in the example worlds\<close>

lemma BigInt_7: "BigInt (Some ''7'') = Inr 7"
  by (simp add: BigInt_def StringToBigInt_def trim_def is_whitespace_def parse_literal_def digit_value_def)

lemma example_iteration_7:
  assumes "unhealthyList env = (\<lambda>poolId t w. (Inr (t = 7), Suc w))"
    and "getPrice env = (\<lambda>oracleAddress t w. (Inr 250, Suc w))"
  shows "iteration env nfts position_7 w =
    (Inr (Some \<lparr>nftData =
                   Some (or_object (find (\<lambda>nft. nft_tokenId nft = Some ''7'') (ownedNfts nfts)) empty_object),
                 isLiquidatableStatus = True, position = position_7,
                 floorPrice = ''250'', debt = ''500''\<rparr>), Suc (Suc w))"
proof -
  have chk: "checkLiquidatableStatus env position_7 w = (Inr True, Suc w)"
    by (simp add: checkLiquidatableStatus_def example_args_7 try_catch_def assms(1))
  have tok: "BigInt (tokenId position_7) = Inr 7"
    by (simp add: position_7_def BigInt_7)
  have price: "fetchFloorPrice env (pool_oracle (pool position_7)) 7 (Suc w) = (Inr (Dbl 250), Suc (Suc w))"
    by (simp add: fetchFloorPrice_price [where price = 250] assms(2) Number_250)
  have "tokenId position_7 = Some ''7''"
    by (simp add: position_7_def)
  with iteration_liquidatable [OF chk tok price, of nfts] show ?thesis
    by (simp add: toString_250 calculateDebt_position_7 del: Number_toString.simps)
qed

lemma example_iteration_8:
  assumes "unhealthyList env = (\<lambda>poolId t w. (Inr (t = 7), Suc w))"
  shows "iteration env nfts position_8 w = (Inr None, Suc w)"
proof -
  have "checkLiquidatableStatus env position_8 w = (Inr False, Suc w)"
    by (simp add: checkLiquidatableStatus_def example_args_8 try_catch_def assms(1))
  then show ?thesis by (rule iteration_healthy)
qed

lemma example_positions:
  "fetchGraphQLPositions example_env w = (Inr [position_7, position_8], Suc w)"
  by (simp add: fetchGraphQLPositions_def try_catch_def example_env_def ok_def)

lemma example_nfts: "fetchNFTData example_env w = (Inr \<lparr>ownedNfts = [nft_7]\<rparr>, Suc w)"
  by (simp add: fetchNFTData_def try_catch_def example_env_def ok_def)

lemma example_run: "getAllLiquidatable example_env 0 = (Inr [record_7], 5)"
proof -
  have u: "unhealthyList example_env = (\<lambda>poolId t w. (Inr (t = 7), Suc w))"
    and g: "getPrice example_env = (\<lambda>oracleAddress t w. (Inr 250, Suc w))"
    by (simp_all add: example_env_def)
  have "getAllLiquidatable example_env 0 =
      for_positions example_env \<lparr>ownedNfts = [nft_7]\<rparr> [position_7, position_8] [] (Suc (Suc 0))"
    by (rule getAllLiquidatable_loop [OF example_positions example_nfts])
  then show ?thesis
    by (simp add: example_iteration_7 [OF u g] example_iteration_8 [OF u] or_object_def nft_7_def
        record_7_def eval_nat_numeral)
qed

lemma example_statuses:
  "statuses example_env \<lparr>ownedNfts = [nft_7]\<rparr> [position_7, position_8] w = [Inr True, Inr False]"
proof -
  have u: "unhealthyList example_env = (\<lambda>poolId t w. (Inr (t = 7), Suc w))"
    and g: "getPrice example_env = (\<lambda>oracleAddress t w. (Inr 250, Suc w))"
    by (simp_all add: example_env_def)
  show ?thesis
    by (simp add: example_iteration_7 [OF u g] checkLiquidatableStatus_def example_args_7
        example_args_8 try_catch_def u)
qed

theorem getAllLiquidatable_exactly_liquidatable_witness:
  "getAllLiquidatable example_env 0 = (Inr [record_7], 5) \<and>
   statuses example_env \<lparr>ownedNfts = [nft_7]\<rparr> [position_7, position_8] (Suc (Suc 0)) =
     [Inr True, Inr False] \<and>
   BigInt (tokenId position_7) = Inr 7 \<and>
   map position [record_7] = [position_7] \<and>
   fst (GET example_env (0, empty_database)) = \<lparr>reply_status = 200, reply_body = Results [record_7]\<rparr> \<and>
   received (snd (snd (GET example_env (0, empty_database)))) = [upsert_of record_7]"
proof -
  note run = getAllLiquidatable_exactly_liquidatable
    [OF example_positions [of 0] example_nfts [of "Suc 0"],
      where result = "[record_7]" and w' = 5 and db = empty_database]
  have st: "statuses example_env \<lparr>ownedNfts = [nft_7]\<rparr> [position_7, position_8] (Suc (Suc 0)) =
     [Inr True, Inr False]"
    by (rule example_statuses)
  have tok: "BigInt (tokenId position_7) = Inr 7"
    by (simp add: position_7_def BigInt_7)
  have "serve example_env [upsert_of record_7] 5 = ((0, None), 6)"
    by (simp add: example_env_def)
  from upsertLiquidations_single [OF this]
  have up: "fst (upsertLiquidations example_env [record_7] (5, empty_database)) =
      Inr [fst (upsert_rows (upsert_of record_7) (liquidation empty_database))]"
    by simp
  from run st tok show ?thesis
    by (simp add: example_run up [unfolded empty_database_def] empty_database_def
        del: statuses.simps)
qed

section \<open>The NFT of a record\<close>

text \<open>
  C5. The NFT record of a result is the first owned NFT, in list order, whose token id
  equals the token id of the position; when no owned NFT has that token id it is the
  empty object. It is never absent.
\<close>

theorem nftData_first_match:
  assumes "fetchGraphQLPositions env w = (Inr ps, w1)"
    and "fetchNFTData env w1 = (Inr nfts, w2)"
    and "getAllLiquidatable env w = (Inr result, w')"
    and "r \<in> set result"
  shows "(\<exists>nft. nftData r = Some nft) \<and>
         ((\<forall>nft \<in> set (ownedNfts nfts). nft_tokenId nft \<noteq> tokenId (position r)) \<longrightarrow>
            nftData r = Some empty_object) \<and>
         (\<forall>i < length (ownedNfts nfts).
            nft_tokenId (ownedNfts nfts ! i) = tokenId (position r) \<and>
            (\<forall>j < i. nft_tokenId (ownedNfts nfts ! j) \<noteq> tokenId (position r)) \<longrightarrow>
            nftData r = Some (ownedNfts nfts ! i))"
proof -
  let ?found = "find (\<lambda>nft. nft_tokenId nft = tokenId (position r)) (ownedNfts nfts)"
  from assms(1-3) have "for_positions env nfts ps [] w2 = (Inr result, w')"
    by (simp add: getAllLiquidatable_loop)
  from for_positions_result [OF this] assms(4)
  have data: "nftData r = Some (or_object ?found empty_object)"
    by auto
  have none: "nftData r = Some empty_object"
    if "\<forall>nft \<in> set (ownedNfts nfts). nft_tokenId nft \<noteq> tokenId (position r)"
  proof -
    from that have "?found = None" by (simp add: find_None_iff)
    with data show ?thesis by (simp add: or_object_def)
  qed
  have first: "nftData r = Some (ownedNfts nfts ! i)"
    if "i < length (ownedNfts nfts)"
      and "nft_tokenId (ownedNfts nfts ! i) = tokenId (position r)"
      and "\<forall>j < i. nft_tokenId (ownedNfts nfts ! j) \<noteq> tokenId (position r)" for i
  proof -
    from that have "?found = Some (ownedNfts nfts ! i)"
      by (auto simp: find_Some_iff)
    with data show ?thesis by (simp add: or_object_def)
  qed
  from data none first show ?thesis by simp
qed

lemma no_nft_positions:
  "fetchGraphQLPositions env_no_nft w = (Inr [position_7, position_8], Suc w)"
  by (simp add: fetchGraphQLPositions_def try_catch_def env_no_nft_def example_env_def ok_def)

lemma no_nft_nfts: "fetchNFTData env_no_nft w = (Inr \<lparr>ownedNfts = []\<rparr>, Suc w)"
  by (simp add: fetchNFTData_def try_catch_def env_no_nft_def ok_def)

lemma no_nft_run: "getAllLiquidatable env_no_nft 0 = (Inr [record_7_no_nft], 5)"
proof -
  have u: "unhealthyList env_no_nft = (\<lambda>poolId t w. (Inr (t = 7), Suc w))"
    and g: "getPrice env_no_nft = (\<lambda>oracleAddress t w. (Inr 250, Suc w))"
    by (simp_all add: env_no_nft_def example_env_def)
  have "getAllLiquidatable env_no_nft 0 =
      for_positions env_no_nft \<lparr>ownedNfts = []\<rparr> [position_7, position_8] [] (Suc (Suc 0))"
    by (rule getAllLiquidatable_loop [OF no_nft_positions no_nft_nfts])
  then show ?thesis
    by (simp add: example_iteration_7 [OF u g] example_iteration_8 [OF u] or_object_def
        record_7_no_nft_def record_7_def eval_nat_numeral)
qed

theorem nftData_first_match_witness:
  "getAllLiquidatable example_env 0 = (Inr [record_7], 5) \<and>
   nft_tokenId nft_7 = tokenId (position record_7) \<and>
   nftData record_7 = Some nft_7 \<and>
   getAllLiquidatable env_no_nft 0 = (Inr [record_7_no_nft], 5) \<and>
   nftData record_7_no_nft = Some empty_object"
proof -
  have in_result: "record_7 \<in> set [record_7]" "record_7_no_nft \<in> set [record_7_no_nft]"
    by simp_all
  have tok: "nft_tokenId nft_7 = tokenId (position record_7)"
    by (simp add: nft_7_def record_7_def position_7_def)
  from nftData_first_match [OF example_positions example_nfts example_run in_result(1)] tok
  have "nftData record_7 = Some nft_7"
    by simp
  moreover
  from nftData_first_match [OF no_nft_positions no_nft_nfts no_nft_run in_result(2)]
  have "nftData record_7_no_nft = Some empty_object"
    by simp
  ultimately show ?thesis
    using tok by (simp add: example_run no_nft_run)
qed


section \<open>The table under upserts\<close>

lemma key_apply_update: "addressIP_tokenId (apply_update u row) = addressIP_tokenId row"
  by (simp add: addressIP_tokenId_def apply_update_def)

lemma key_create_data:
  "addressIP_tokenId (create_data (upsert_of l)) = where_addressIP_tokenId (upsert_of l)"
  by (simp add: addressIP_tokenId_def upsert_of_def)

lemma update_is_create:
  assumes "addressIP_tokenId row = where_addressIP_tokenId (upsert_of l)"
  shows "apply_update (update_data (upsert_of l)) row = create_data (upsert_of l)"
  using assms by (cases row) (simp add: addressIP_tokenId_def apply_update_def upsert_of_def)

lemma written_row: "fst (upsert_rows (upsert_of l) rows) = create_data (upsert_of l)"
  by (induction rows) (auto simp: update_is_create split: prod.splits)

lemma written_row_stored: "fst (upsert_rows a rows) \<in> set (snd (upsert_rows a rows))"
  by (induction rows) (auto split: prod.splits)

lemma keys_upsert_rows:
  "map addressIP_tokenId (snd (upsert_rows (upsert_of l) rows)) =
   (if where_addressIP_tokenId (upsert_of l) \<in> set (map addressIP_tokenId rows)
    then map addressIP_tokenId rows
    else map addressIP_tokenId rows @ [where_addressIP_tokenId (upsert_of l)])"
  by (induction rows) (auto simp: key_apply_update key_create_data split: prod.splits)

lemma distinct_upsert_rows:
  assumes "distinct (map addressIP_tokenId rows)"
  shows "distinct (map addressIP_tokenId (snd (upsert_rows (upsert_of l) rows)))"
  using assms by (simp add: keys_upsert_rows)

lemma filter_upsert_rows:
  assumes "distinct (map addressIP_tokenId rows)"
  shows "filter (\<lambda>row. addressIP_tokenId row = k) (snd (upsert_rows (upsert_of l) rows)) =
         (if k = where_addressIP_tokenId (upsert_of l) then [create_data (upsert_of l)]
          else filter (\<lambda>row. addressIP_tokenId row = k) rows)"
  using assms
proof (induction rows)
  case Nil
  show ?case by (auto simp: key_create_data)
next
  case (Cons row rows)
  show ?case
  proof (cases "addressIP_tokenId row = where_addressIP_tokenId (upsert_of l)")
    case True
    with Cons.prems have "filter (\<lambda>x. addressIP_tokenId x = addressIP_tokenId row) rows = []"
      by (force simp: filter_empty_conv)
    with True show ?thesis
      by (auto simp: update_is_create key_create_data)
  next
    case False
    with Cons show ?thesis
      by (auto split: prod.splits)
  qed
qed





section \<open>The table after the upserts of a list\<close>

lemma run_in_order_Nil: "run_in_order [] rows = rows"
  by (simp add: run_in_order_def)

lemma run_in_order_Cons:
  "run_in_order (a # order) rows = run_in_order order (snd (upsert_rows a rows))"
  by (simp add: run_in_order_def)




text \<open>The upserts of a list that go to the key \<open>k\<close>: the last of them is the row.\<close>

lemma filter_run_in_order:
  assumes "set order \<subseteq> range upsert_of"
    and "distinct (map addressIP_tokenId rows)"
  shows "filter (\<lambda>row. addressIP_tokenId row = k) (run_in_order order rows) =
         (if filter (\<lambda>a. where_addressIP_tokenId a = k) order = []
          then filter (\<lambda>row. addressIP_tokenId row = k) rows
          else [create_data (last (filter (\<lambda>a. where_addressIP_tokenId a = k) order))])"
  using assms
proof (induction order arbitrary: rows)
  case Nil
  show ?case by (simp add: run_in_order_Nil)
next
  case (Cons a order)
  from Cons.prems(1) obtain l where a: "a = upsert_of l"
    by auto
  from Cons.prems(1) have rest: "set order \<subseteq> range upsert_of"
    by simp
  have d: "distinct (map addressIP_tokenId (snd (upsert_rows a rows)))"
    unfolding a by (rule distinct_upsert_rows [OF Cons.prems(2)])
  have step: "filter (\<lambda>row. addressIP_tokenId row = k) (snd (upsert_rows a rows)) =
         (if k = where_addressIP_tokenId a then [create_data a]
          else filter (\<lambda>row. addressIP_tokenId row = k) rows)"
    unfolding a by (rule filter_upsert_rows [OF Cons.prems(2)])
  show ?case
    unfolding run_in_order_Cons Cons.IH [OF rest d] step
    by auto
qed

lemma order_of_records:
  assumes "mset order = mset (map upsert_of ls)"
  shows "set order = upsert_of ` set ls" and "set order \<subseteq> range upsert_of"
proof -
  from assms have "set order = set (map upsert_of ls)"
    by (rule mset_eq_setD)
  then show "set order = upsert_of ` set ls"
    by simp
  then show "set order \<subseteq> range upsert_of"
    by auto
qed



section \<open>Two runs of the pipeline\<close>










section \<open>Records without NFT metadata\<close>

lemma upsertLiquidations_pair:
  assumes "serve env [upsert_of l1, upsert_of l2] w = ((0, None), w1)"
    and "serve env [upsert_of l2] w1 = ((k, None), w2)"
  shows "upsertLiquidations env [l1, l2] (w, db) =
         (Inr [fst (upsert_rows (upsert_of l1) (liquidation db)),
               fst (upsert_rows (upsert_of l2) (snd (upsert_rows (upsert_of l1) (liquidation db))))],
          w2,
          \<lparr>liquidation =
             snd (upsert_rows (upsert_of l2) (snd (upsert_rows (upsert_of l1) (liquidation db)))),
           received = received db @ [upsert_of l1, upsert_of l2]\<rparr>)"
proof -
  have "settle_all env [(0, upsert_of l1), (Suc 0, upsert_of l2)] [] None w (liquidation db) =
      (Inr [fst (upsert_rows (upsert_of l1) (liquidation db)),
            fst (upsert_rows (upsert_of l2) (snd (upsert_rows (upsert_of l1) (liquidation db))))],
       w2,
       snd (upsert_rows (upsert_of l2) (snd (upsert_rows (upsert_of l1) (liquidation db)))))"
    by (subst settle_all.simps, simp add: assms without_def split: prod.splits,
        subst settle_all.simps, simp add: assms without_def split: prod.splits,
        subst settle_all.simps, simp)
  then show ?thesis
    by (simp add: upsertLiquidations_def enumerate_eq_zip)
qed

text \<open>
  C10. For a record whose NFT is the empty object the address in the key of the upsert,
  and in the row to create, is the empty string. Two such records with the same token
  id have the same key, so that when the upserts of both are fulfilled the table has one
  row for them: it holds the values of one of the two.
\<close>

theorem empty_nft_key:
  assumes "nftData l1 = Some empty_object" and "nftData l2 = Some empty_object"
    and "tokenId (position l1) = tokenId (position l2)"
  shows "where_addressIP_tokenId (upsert_of l1) = ([], or_string (tokenId (position l1)) []) \<and>
         addressIP_col (create_data (upsert_of l1)) = [] \<and>
         where_addressIP_tokenId (upsert_of l2) = where_addressIP_tokenId (upsert_of l1) \<and>
         (distinct (map addressIP_tokenId (liquidation db)) \<and>
          upsertLiquidations env [l1, l2] (w, db) = (Inr written, w', db') \<longrightarrow>
            filter (\<lambda>row. addressIP_tokenId row = ([], or_string (tokenId (position l1)) []))
              (liquidation db') = [create_data (upsert_of l1)] \<or>
            filter (\<lambda>row. addressIP_tokenId row = ([], or_string (tokenId (position l1)) []))
              (liquidation db') = [create_data (upsert_of l2)])"
proof -
  let ?k = "([], or_string (tokenId (position l1)) [])"
  from assms have k1: "where_addressIP_tokenId (upsert_of l1) = ?k"
    and k2: "where_addressIP_tokenId (upsert_of l2) = ?k"
    and a: "addressIP_col (create_data (upsert_of l1)) = []"
    by (simp_all add: upsert_of_def empty_object_def or_string_def)
  have "filter (\<lambda>row. addressIP_tokenId row = ?k) (liquidation db') = [create_data (upsert_of l1)] \<or>
        filter (\<lambda>row. addressIP_tokenId row = ?k) (liquidation db') = [create_data (upsert_of l2)]"
    if d: "distinct (map addressIP_tokenId (liquidation db))"
      and run: "upsertLiquidations env [l1, l2] (w, db) = (Inr written, w', db')"
  proof -
    from upsertLiquidations_fulfilled [OF run] obtain order
      where o: "mset order = mset (map upsert_of [l1, l2])"
        and rows: "liquidation db' = run_in_order order (liquidation db)"
      by blast
    note r = order_of_records [OF o]
    from r(1) k1 k2 have all: "filter (\<lambda>a. where_addressIP_tokenId a = ?k) order = order"
      by (auto simp: filter_id_conv)
    from r(1) have some: "order \<noteq> []"
      by auto
    then have "last order \<in> set order"
      by (rule last_in_set)
    with r(1) have "last order = upsert_of l1 \<or> last order = upsert_of l2"
      by simp
    then show ?thesis
      unfolding rows filter_run_in_order [OF r(2) d] all using some by auto
  qed
  with k1 k2 a show ?thesis by simp
qed

theorem empty_nft_key_witness:
  "where_addressIP_tokenId (upsert_of record_7_no_nft) = ([], ''7'') \<and>
   where_addressIP_tokenId (upsert_of (record_7_no_nft\<lparr>floorPrice := ''300''\<rparr>)) = ([], ''7'') \<and>
   upsertLiquidations example_env [record_7_no_nft, record_7_no_nft\<lparr>floorPrice := ''300''\<rparr>]
     (0, empty_database) =
     (Inr [create_data (upsert_of record_7_no_nft),
           create_data (upsert_of (record_7_no_nft\<lparr>floorPrice := ''300''\<rparr>))],
      2,
      \<lparr>liquidation = [create_data (upsert_of (record_7_no_nft\<lparr>floorPrice := ''300''\<rparr>))],
       received = [upsert_of record_7_no_nft,
                   upsert_of (record_7_no_nft\<lparr>floorPrice := ''300''\<rparr>)]\<rparr>) \<and>
   filter (\<lambda>row. addressIP_tokenId row = ([], ''7''))
     [create_data (upsert_of (record_7_no_nft\<lparr>floorPrice := ''300''\<rparr>))] =
   [create_data (upsert_of (record_7_no_nft\<lparr>floorPrice := ''300''\<rparr>))]"
proof -
  let ?l1 = "record_7_no_nft" and ?l2 = "record_7_no_nft\<lparr>floorPrice := ''300''\<rparr>"
  have n: "nftData ?l1 = Some empty_object" "nftData ?l2 = Some empty_object"
    by (simp_all add: record_7_no_nft_def)
  have t: "tokenId (position ?l1) = tokenId (position ?l2)"
    by simp
  have v: "or_string (tokenId (position ?l1)) [] = ''7''"
    by (simp add: record_7_no_nft_def record_7_def position_7_def or_string_def)
  have d: "distinct (map addressIP_tokenId (liquidation empty_database))"
    by (simp add: empty_database_def)
  have s1: "serve example_env [upsert_of ?l1, upsert_of ?l2] 0 = ((0, None), Suc 0)"
    and s2: "serve example_env [upsert_of ?l2] (Suc 0) = ((0, None), 2)"
    by (simp_all add: example_env_def)
  note inst = empty_nft_key [OF n t, where db = empty_database and env = example_env and w = 0
      and written = "[create_data (upsert_of ?l1), create_data (upsert_of ?l2)]" and w' = 2
      and db' = "\<lparr>liquidation = [create_data (upsert_of ?l2)],
                  received = [upsert_of ?l1, upsert_of ?l2]\<rparr>"]
  from inst v have k1: "where_addressIP_tokenId (upsert_of ?l1) = ([], ''7'')"
    by simp
  from inst k1 have k2: "where_addressIP_tokenId (upsert_of ?l2) = ([], ''7'')"
    by simp
  from k1 k2
  have key: "addressIP_tokenId (create_data (upsert_of ?l1)) = where_addressIP_tokenId (upsert_of ?l2)"
    by (simp only: key_create_data)
  have run: "upsertLiquidations example_env [?l1, ?l2] (0, empty_database) =
      (Inr [create_data (upsert_of ?l1), create_data (upsert_of ?l2)], 2,
       \<lparr>liquidation = [create_data (upsert_of ?l2)],
        received = [upsert_of ?l1, upsert_of ?l2]\<rparr>)"
    unfolding upsertLiquidations_pair [OF s1 s2]
    by (simp add: empty_database_def key update_is_create [OF key] del: upsert_rows.simps(2))
      (simp add: key update_is_create [OF key])
  from inst d run v
  have "filter (\<lambda>row. addressIP_tokenId row = ([], ''7'')) [create_data (upsert_of ?l2)] =
          [create_data (upsert_of ?l1)] \<or>
        filter (\<lambda>row. addressIP_tokenId row = ([], ''7'')) [create_data (upsert_of ?l2)] =
          [create_data (upsert_of ?l2)]"
    by simp
  have stored: "filter (\<lambda>row. addressIP_tokenId row = ([], ''7'')) [create_data (upsert_of ?l2)] =
      [create_data (upsert_of ?l2)]"
    by (simp add: key_create_data k2)
  from k1 k2 run stored show ?thesis
    by (simp only: simp_thms)
qed

section \<open>One liquidatable position, end to end\<close>

lemma args_0xabc_7:
  assumes "position_id p = Some ''0xabc-7''"
  shows "unhealthyList_args p = Inr (Some ''0xabc'', 7)"
  using assms
  by (simp add: unhealthyList_args_def element_at_def BigInt_def
      StringToBigInt_def trim_def is_whitespace_def parse_literal_def digit_value_def)

lemma calculateDebt_50_100_1000:
  assumes "borrowShares p = Dbl 50"
    and "totalBorrowShares (pool p) = Dbl 100"
    and "totalBorrowAssets (pool p) = Dbl 1000"
  shows "calculateDebt p = ''500''"
  using assms
  by (simp add: calculateDebt_def divide_50_100 multiply_half_1000 toString_500
      del: Number_toString.simps)

lemma BigInt_8: "BigInt (Some ''8'') = Inr 8"
  by (simp add: BigInt_def StringToBigInt_def trim_def is_whitespace_def parse_literal_def digit_value_def)

text \<open>
  The run of the handler on one position of id \<^verbatim>\<open>0xabc-7\<close>, whatever its token id.
\<close>

lemma one_position_aggregation:
  assumes "fetchGraphQLPositions env w = (Inr [p], w1)"
    and "fetchNFTData env w1 = (Inr nfts, w2)"
    and "position_id p = Some ''0xabc-7''"
    and "BigInt (tokenId p) = Inr t"
    and "borrowShares p = Dbl 50"
    and "totalBorrowShares (pool p) = Dbl 100"
    and "totalBorrowAssets (pool p) = Dbl 1000"
    and "unhealthyList env (Some ''0xabc'') 7 w2 = (Inr True, w3)"
    and "getPrice env (pool_oracle (pool p)) t w3 = (Inr 250, w4)"
    and "r = \<lparr>nftData =
                Some (or_object (find (\<lambda>nft. nft_tokenId nft = tokenId p) (ownedNfts nfts)) empty_object),
              isLiquidatableStatus = True, position = p, floorPrice = ''250'', debt = ''500''\<rparr>"
  shows "getAllLiquidatable env w = (Inr [r], w4)"
proof -
  have chk: "checkLiquidatableStatus env p w2 = (Inr True, w3)"
    by (simp add: checkLiquidatableStatus_def args_0xabc_7 [OF assms(3)] try_catch_def assms(8))
  have price: "fetchFloorPrice env (pool_oracle (pool p)) t w3 = (Inr (Dbl 250), w4)"
    by (simp add: fetchFloorPrice_price [OF assms(9)] Number_250)
  have "iteration env nfts p w2 = (Inr (Some r), w4)"
    using iteration_liquidatable [OF chk assms(4) price, of nfts]
    by (simp add: assms(10) toString_250 calculateDebt_50_100_1000 [OF assms(5-7)]
        del: Number_toString.simps)
  then show ?thesis
    by (simp add: getAllLiquidatable_loop [OF assms(1,2)])
qed

lemma one_position_run:
  assumes "getAllLiquidatable env w = (Inr [r], w4)"
    and "\<And>a. \<exists>k. serve env [a] w4 = ((k, None), w5)"
  shows "GET env (w, db) =
           (\<lparr>reply_status = 200, reply_body = Results [r]\<rparr>, w5,
            \<lparr>liquidation = snd (upsert_rows (upsert_of r) (liquidation db)),
             received = received db @ [upsert_of r]\<rparr>)"
proof -
  from assms(2) obtain k where "serve env [upsert_of r] w4 = ((k, None), w5)"
    by blast
  from upsertLiquidations_single [OF this] show ?thesis
    by (simp add: GET_returns [OF assms(1)])
qed

lemma one_position_rejected:
  assumes "getAllLiquidatable env w = (Inr [r], w4)"
    and "serve env [upsert_of r] w4 = ((k, Some error), w5)"
  shows "GET env (w, db) =
           (error_reply error, w5,
            \<lparr>liquidation = liquidation db, received = received db @ [upsert_of r]\<rparr>)"
  using upsertLiquidations_single_rejected [OF assms(2)]
  by (simp add: GET_returns [OF assms(1)])

text \<open>
  C8. One fetched position with id \<^verbatim>\<open>0xabc-7\<close> and token id \<^verbatim>\<open>7\<close>, 50 borrow shares
  in a pool of 100 borrow shares and 1000 borrowed assets; the checker reads \<open>true\<close>,
  the oracle reads 250 and the database does not reject the upsert. The handler replies
  200 with one record, of debt \<^verbatim>\<open>500\<close> and floor price \<^verbatim>\<open>250\<close>; the database
  receives the upsert of this record, whose key is the contract address of the first NFT
  of token id \<^verbatim>\<open>7\<close> (the empty string when there is none, or when it has no address)
  and \<^verbatim>\<open>7\<close>, and then has a row with this key, this debt and this floor price.
\<close>

theorem single_position_scenario:
  assumes "fetchGraphQLPositions env w = (Inr [p], w1)"
    and "fetchNFTData env w1 = (Inr nfts, w2)"
    and "position_id p = Some ''0xabc-7''"
    and "tokenId p = Some ''7''"
    and "borrowShares p = Dbl 50"
    and "totalBorrowShares (pool p) = Dbl 100"
    and "totalBorrowAssets (pool p) = Dbl 1000"
    and "unhealthyList env (Some ''0xabc'') 7 w2 = (Inr True, w3)"
    and "getPrice env (pool_oracle (pool p)) 7 w3 = (Inr 250, w4)"
    and "\<And>a. \<exists>k. serve env [a] w4 = ((k, None), w5)"
  shows "\<exists>r db'.
           GET env (w, db) = (\<lparr>reply_status = 200, reply_body = Results [r]\<rparr>, w5, db') \<and>
           position r = p \<and> debt r = ''500'' \<and> floorPrice r = ''250'' \<and>
           received db' = received db @ [upsert_of r] \<and>
           where_addressIP_tokenId (upsert_of r) =
             (case find (\<lambda>nft. nft_tokenId nft = Some ''7'') (ownedNfts nfts) of
                None \<Rightarrow> []
              | Some nft \<Rightarrow> or_string (Option.bind (contract nft) address) [],
              ''7'') \<and>
           (\<exists>row \<in> set (liquidation db').
              addressIP_tokenId row =
                (case find (\<lambda>nft. nft_tokenId nft = Some ''7'') (ownedNfts nfts) of
                   None \<Rightarrow> []
                 | Some nft \<Rightarrow> or_string (Option.bind (contract nft) address) [],
                 ''7'') \<and>
              debt_col row = ''500'' \<and> floorPrice_col row = ''250'')"
proof -
  let ?found = "find (\<lambda>nft. nft_tokenId nft = Some ''7'') (ownedNfts nfts)"
  let ?r = "\<lparr>nftData = Some (or_object ?found empty_object),
             isLiquidatableStatus = True, position = p,
             floorPrice = ''250'', debt = ''500''\<rparr>"
  let ?db = "\<lparr>liquidation = snd (upsert_rows (upsert_of ?r) (liquidation db)),
             received = received db @ [upsert_of ?r]\<rparr>"
  have tok: "BigInt (tokenId p) = Inr 7"
    by (simp add: assms(4) BigInt_7)
  have "getAllLiquidatable env w = (Inr [?r], w4)"
    by (rule one_position_aggregation [OF assms(1-3) tok assms(5-9)]) (simp add: assms(4))
  then have reply: "GET env (w, db) = (\<lparr>reply_status = 200, reply_body = Results [?r]\<rparr>, w5, ?db)"
    using assms(10) by (rule one_position_run)
  have received: "received ?db = received db @ [upsert_of ?r]"
    by simp
  have key: "where_addressIP_tokenId (upsert_of ?r) =
             (case ?found of
                None \<Rightarrow> []
              | Some nft \<Rightarrow> or_string (Option.bind (contract nft) address) [],
              ''7'')"
    by (simp add: upsert_of_def assms(4) or_object_def empty_object_def or_string_def
        split: option.splits)
  let ?row = "create_data (upsert_of ?r)"
  have "?row \<in> set (liquidation ?db)"
    using written_row_stored [of "upsert_of ?r" "liquidation db"]
    by (simp add: written_row)
  moreover have "addressIP_tokenId ?row = where_addressIP_tokenId (upsert_of ?r)"
    by (rule key_create_data)
  moreover have "debt_col ?row = ''500''" and "floorPrice_col ?row = ''250''"
    by (simp_all add: upsert_of_def or_string_def)
  ultimately have stored: "\<exists>row \<in> set (liquidation ?db).
      addressIP_tokenId row =
        (case ?found of
           None \<Rightarrow> []
         | Some nft \<Rightarrow> or_string (Option.bind (contract nft) address) [],
         ''7'') \<and>
      debt_col row = ''500'' \<and> floorPrice_col row = ''250''"
    unfolding key by blast
  have fields: "position ?r = p" "debt ?r = ''500''" "floorPrice ?r = ''250''"
    by simp_all
  from reply fields received key stored show ?thesis
    by blast
qed

lemma single_positions: "fetchGraphQLPositions env_single w = (Inr [position_7], Suc w)"
  by (simp add: fetchGraphQLPositions_def try_catch_def env_single_def ok_def)

lemma single_nfts: "fetchNFTData env_single w = (Inr \<lparr>ownedNfts = [nft_7]\<rparr>, Suc w)"
  by (simp add: fetchNFTData_def try_catch_def env_single_def example_env_def ok_def)

theorem single_position_scenario_witness:
  "\<exists>r db'.
     GET env_single (0, empty_database) = (\<lparr>reply_status = 200, reply_body = Results [r]\<rparr>, 5, db') \<and>
     position r = position_7 \<and> debt r = ''500'' \<and> floorPrice r = ''250'' \<and>
     received db' = [upsert_of r] \<and>
     where_addressIP_tokenId (upsert_of r) = (''0xc0de'', ''7'') \<and>
     (\<exists>row \<in> set (liquidation db').
        addressIP_tokenId row = (''0xc0de'', ''7'') \<and> debt_col row = ''500'' \<and> floorPrice_col row = ''250'')"
proof -
  have p: "position_id position_7 = Some ''0xabc-7''" "tokenId position_7 = Some ''7''"
    "borrowShares position_7 = Dbl 50" "totalBorrowShares (pool position_7) = Dbl 100"
    "totalBorrowAssets (pool position_7) = Dbl 1000"
    by (simp_all add: position_7_def example_pool_def)
  have chk: "unhealthyList env_single (Some ''0xabc'') 7 (Suc (Suc 0)) = (Inr True, 3)"
    by (simp add: env_single_def example_env_def)
  have price: "getPrice env_single (pool_oracle (pool position_7)) 7 3 = (Inr 250, 4)"
    by (simp add: env_single_def example_env_def)
  have served: "\<exists>k. serve env_single [a] 4 = ((k, None), 5)" for a
    by (simp add: env_single_def example_env_def)
  have addr: "or_string (Option.bind (contract nft_7) address) [] = ''0xc0de''"
    and tid: "nft_tokenId nft_7 = Some ''7''"
    by (simp_all add: nft_7_def or_string_def)
  from single_position_scenario [OF single_positions single_nfts p chk price served, of empty_database]
  show ?thesis
    by (simp add: tid addr empty_database_def)
qed

text \<open>
  With the token id \<^verbatim>\<open>8\<close> in the position of id \<^verbatim>\<open>0xabc-7\<close> the checker reads token 7,
  the oracle is asked for token 8, the NFT is looked for under \<^verbatim>\<open>8\<close>, and the record is
  stored under the token id \<^verbatim>\<open>8\<close>: no row has the token id \<^verbatim>\<open>7\<close>. With the token
  id \<^verbatim>\<open>7\<close> and a database that rejects the upsert, the handler replies 500 and no row
  is stored.
\<close>

lemma token_8_positions: "fetchGraphQLPositions env_token_8 w = (Inr [position_7_token_8], Suc w)"
  by (simp add: fetchGraphQLPositions_def try_catch_def env_token_8_def ok_def)

lemma token_8_nfts: "fetchNFTData env_token_8 w = (Inr \<lparr>ownedNfts = [nft_7]\<rparr>, Suc w)"
  by (simp add: fetchNFTData_def try_catch_def env_token_8_def example_env_def ok_def)

lemma token_8_run:
  "checkLiquidatableStatus env_token_8 position_7_token_8 2 = (Inr True, 3) \<and>
   getPrice env_token_8 (pool_oracle (pool position_7_token_8)) 8 3 = (Inr 250, 4) \<and>
   GET env_token_8 (0, empty_database) =
     (\<lparr>reply_status = 200, reply_body = Results [record_token_8]\<rparr>, 5,
      \<lparr>liquidation = [create_data (upsert_of record_token_8)],
       received = [upsert_of record_token_8]\<rparr>)"
proof -
  have p: "position_id position_7_token_8 = Some ''0xabc-7''"
    "borrowShares position_7_token_8 = Dbl 50"
    "totalBorrowShares (pool position_7_token_8) = Dbl 100"
    "totalBorrowAssets (pool position_7_token_8) = Dbl 1000"
    by (simp_all add: position_7_token_8_def position_7_def example_pool_def)
  have tok: "BigInt (tokenId position_7_token_8) = Inr 8"
    by (simp add: position_7_token_8_def BigInt_8)
  have u: "unhealthyList env_token_8 (Some ''0xabc'') 7 (Suc (Suc 0)) = (Inr True, 3)"
    by (simp add: env_token_8_def example_env_def)
  have g: "getPrice env_token_8 (pool_oracle (pool position_7_token_8)) 8 3 = (Inr 250, 4)"
    by (simp add: env_token_8_def example_env_def)
  have served: "\<exists>k. serve env_token_8 [a] 4 = ((k, None), 5)" for a
    by (simp add: env_token_8_def example_env_def)
  have r: "record_token_8 =
      \<lparr>nftData = Some (or_object (find (\<lambda>nft. nft_tokenId nft = tokenId position_7_token_8)
                                    (ownedNfts \<lparr>ownedNfts = [nft_7]\<rparr>)) empty_object),
       isLiquidatableStatus = True, position = position_7_token_8,
       floorPrice = ''250'', debt = ''500''\<rparr>"
    by (simp add: record_token_8_def position_7_token_8_def nft_7_def or_object_def)
  have chk: "checkLiquidatableStatus env_token_8 position_7_token_8 2 = (Inr True, 3)"
    using u by (simp add: checkLiquidatableStatus_def args_0xabc_7 [OF p(1)] try_catch_def
        eval_nat_numeral)
  have "getAllLiquidatable env_token_8 0 = (Inr [record_token_8], 4)"
    by (rule one_position_aggregation [OF token_8_positions token_8_nfts p(1) tok p(2-4) u g r])
  from one_position_run [OF this served, of empty_database]
  have "GET env_token_8 (0, empty_database) =
     (\<lparr>reply_status = 200, reply_body = Results [record_token_8]\<rparr>, 5,
      \<lparr>liquidation = [create_data (upsert_of record_token_8)],
       received = [upsert_of record_token_8]\<rparr>)"
    by (simp add: empty_database_def)
  with chk g show ?thesis
    by simp
qed

lemma rejecting_positions: "fetchGraphQLPositions env_rejecting w = (Inr [position_7], Suc w)"
  by (simp add: fetchGraphQLPositions_def try_catch_def env_rejecting_def env_single_def ok_def)

lemma rejecting_nfts: "fetchNFTData env_rejecting w = (Inr \<lparr>ownedNfts = [nft_7]\<rparr>, Suc w)"
  by (simp add: fetchNFTData_def try_catch_def env_rejecting_def env_single_def example_env_def
      ok_def)

lemma rejecting_run:
  "checkLiquidatableStatus env_rejecting position_7 2 = (Inr True, 3) \<and>
   getPrice env_rejecting (pool_oracle (pool position_7)) 7 3 = (Inr 250, 4) \<and>
   getAllLiquidatable env_rejecting 0 = (Inr [record_7], 4) \<and>
   GET env_rejecting (0, empty_database) =
     (\<lparr>reply_status = 500,
       reply_body = ErrorBody ''Failed to fetch positions'' ''Connection lost''\<rparr>, 5,
      \<lparr>liquidation = [], received = [upsert_of record_7]\<rparr>)"
proof -
  have p: "position_id position_7 = Some ''0xabc-7''"
    "borrowShares position_7 = Dbl 50"
    "totalBorrowShares (pool position_7) = Dbl 100"
    "totalBorrowAssets (pool position_7) = Dbl 1000"
    by (simp_all add: position_7_def example_pool_def)
  have tok: "BigInt (tokenId position_7) = Inr 7"
    by (simp add: position_7_def BigInt_7)
  have u: "unhealthyList env_rejecting (Some ''0xabc'') 7 (Suc (Suc 0)) = (Inr True, 3)"
    by (simp add: env_rejecting_def env_single_def example_env_def)
  have g: "getPrice env_rejecting (pool_oracle (pool position_7)) 7 3 = (Inr 250, 4)"
    by (simp add: env_rejecting_def env_single_def example_env_def)
  have served: "serve env_rejecting [upsert_of record_7] 4 = ((0, Some (Error ''Connection lost'')), 5)"
    by (simp add: env_rejecting_def)
  have r: "record_7 =
      \<lparr>nftData = Some (or_object (find (\<lambda>nft. nft_tokenId nft = tokenId position_7)
                                    (ownedNfts \<lparr>ownedNfts = [nft_7]\<rparr>)) empty_object),
       isLiquidatableStatus = True, position = position_7,
       floorPrice = ''250'', debt = ''500''\<rparr>"
    by (simp add: record_7_def position_7_def nft_7_def or_object_def)
  have chk: "checkLiquidatableStatus env_rejecting position_7 2 = (Inr True, 3)"
    using u by (simp add: checkLiquidatableStatus_def args_0xabc_7 [OF p(1)] try_catch_def
        eval_nat_numeral)
  have run: "getAllLiquidatable env_rejecting 0 = (Inr [record_7], 4)"
    by (rule one_position_aggregation [OF rejecting_positions rejecting_nfts p(1) tok p(2-4) u g r])
  from one_position_rejected [OF run served, of empty_database]
  have "GET env_rejecting (0, empty_database) =
     (\<lparr>reply_status = 500,
       reply_body = ErrorBody ''Failed to fetch positions'' ''Connection lost''\<rparr>, 5,
      \<lparr>liquidation = [], received = [upsert_of record_7]\<rparr>)"
    by (simp add: empty_database_def error_reply_def)
  with chk g run show ?thesis
    by simp
qed

theorem single_position_scenario_counterexample:
  "fetchGraphQLPositions env_token_8 0 = (Inr [position_7_token_8], 1) \<and>
   position_id position_7_token_8 = Some ''0xabc-7'' \<and>
   borrowShares position_7_token_8 = Dbl 50 \<and>
   totalBorrowShares (pool position_7_token_8) = Dbl 100 \<and>
   totalBorrowAssets (pool position_7_token_8) = Dbl 1000 \<and>
   checkLiquidatableStatus env_token_8 position_7_token_8 2 = (Inr True, 3) \<and>
   getPrice env_token_8 (pool_oracle (pool position_7_token_8)) 8 3 = (Inr 250, 4) \<and>
   GET env_token_8 (0, empty_database) =
     (\<lparr>reply_status = 200, reply_body = Results [record_token_8]\<rparr>, 5,
      \<lparr>liquidation = [create_data (upsert_of record_token_8)],
       received = [upsert_of record_token_8]\<rparr>) \<and>
   debt record_token_8 = ''500'' \<and> floorPrice record_token_8 = ''250'' \<and>
   map addressIP_tokenId [create_data (upsert_of record_token_8)] = [([], ''8'')] \<and>
   fetchGraphQLPositions env_rejecting 0 = (Inr [position_7], 1) \<and>
   position_id position_7 = Some ''0xabc-7'' \<and>
   tokenId position_7 = Some ''7'' \<and>
   borrowShares position_7 = Dbl 50 \<and>
   totalBorrowShares (pool position_7) = Dbl 100 \<and>
   totalBorrowAssets (pool position_7) = Dbl 1000 \<and>
   checkLiquidatableStatus env_rejecting position_7 2 = (Inr True, 3) \<and>
   getPrice env_rejecting (pool_oracle (pool position_7)) 7 3 = (Inr 250, 4) \<and>
   getAllLiquidatable env_rejecting 0 = (Inr [record_7], 4) \<and>
   debt record_7 = ''500'' \<and> floorPrice record_7 = ''250'' \<and>
   GET env_rejecting (0, empty_database) =
     (\<lparr>reply_status = 500,
       reply_body = ErrorBody ''Failed to fetch positions'' ''Connection lost''\<rparr>, 5,
      \<lparr>liquidation = [], received = [upsert_of record_7]\<rparr>)"
proof -
  have p8: "position_id position_7_token_8 = Some ''0xabc-7''"
    "borrowShares position_7_token_8 = Dbl 50"
    "totalBorrowShares (pool position_7_token_8) = Dbl 100"
    "totalBorrowAssets (pool position_7_token_8) = Dbl 1000"
    by (simp_all add: position_7_token_8_def position_7_def example_pool_def)
  have p7: "position_id position_7 = Some ''0xabc-7''" "tokenId position_7 = Some ''7''"
    "borrowShares position_7 = Dbl 50"
    "totalBorrowShares (pool position_7) = Dbl 100"
    "totalBorrowAssets (pool position_7) = Dbl 1000"
    by (simp_all add: position_7_def example_pool_def)
  have key: "addressIP_tokenId (create_data (upsert_of record_token_8)) = ([], ''8'')"
    by (simp add: addressIP_tokenId_def upsert_of_def record_token_8_def position_7_token_8_def
        empty_object_def or_string_def)
  have fields: "debt record_token_8 = ''500''" "floorPrice record_token_8 = ''250''"
    "debt record_7 = ''500''" "floorPrice record_7 = ''250''"
    by (simp_all add: record_token_8_def record_7_def)
  from token_8_positions [of 0] rejecting_positions [of 0] p8 p7 token_8_run rejecting_run
    fields key
  show ?thesis
    by simp
qed

section \<open>The rendering of a number\<close>

lemma digit_char_digit: "digit_char d \<in> set number_characters"
proof -
  have "nat (d mod 10) < length ''0123456789''"
    by simp
  then have "''0123456789'' ! nat (d mod 10) \<in> set ''0123456789''"
    by (rule nth_mem)
  moreover have "set ''0123456789'' \<subseteq> set number_characters"
    by (simp add: number_characters_def)
  ultimately show ?thesis
    unfolding digit_char_def by (rule rev_subsetD)
qed

lemma digits10_plain: "set (digits10 n) \<subseteq> set number_characters"
proof (induction n rule: digits10.induct)
  case (1 n)
  show ?case
  proof (cases "n < 10")
    case True
    then have "digits10 n = [digit_char n]"
      by (subst digits10.simps) simp
    with digit_char_digit [of n] show ?thesis by simp
  next
    case False
    then have "digits10 n = digits10 (n div 10) @ [digit_char (n mod 10)]"
      by (subst digits10.simps) simp
    with "1.IH" [OF False] digit_char_digit [of "n mod 10"] show ?thesis by simp
  qed
qed

lemma take_digits10_plain: "set (take m (digits10 n)) \<subseteq> set number_characters"
  using set_take_subset [of m "digits10 n"] digits10_plain [of n] by (rule subset_trans)

lemma drop_digits10_plain: "set (drop m (digits10 n)) \<subseteq> set number_characters"
  using set_drop_subset [of m "digits10 n"] digits10_plain [of n] by (rule subset_trans)

lemma marks_plain:
  "CHR ''0'' \<in> set number_characters" "CHR ''.'' \<in> set number_characters"
  "CHR ''e'' \<in> set number_characters" "CHR ''-'' \<in> set number_characters"
  "CHR ''+'' \<in> set number_characters"
  by (simp_all add: number_characters_def)

lemma replicate_zero_plain: "set (replicate m CHR ''0'') \<subseteq> set number_characters"
  using marks_plain(1) by auto

lemma format_digits_plain: "set (format_digits s n) \<subseteq> set number_characters"
  unfolding format_digits_def Let_def
  by (simp add: digits10_plain take_digits10_plain drop_digits10_plain marks_plain
      replicate_zero_plain del: set_replicate_conv_if set_replicate set_take_subset)

lemma positive_toString_plain: "set (positive_toString v) \<subseteq> set number_characters"
  unfolding positive_toString_def
  by (cases "shortest 1 v (ilog10 v + 1)") (simp add: format_digits_plain)

lemma Number_toString_plain: "set (Number_toString x) \<subseteq> set number_characters"
proof (cases x)
  case (Dbl r)
  then show ?thesis
    by (simp add: positive_toString_plain marks_plain)
qed (simp_all add: number_characters_def)

text \<open>
  C2. The debt is the string of the number obtained by dividing the borrow shares by
  the total borrow shares of the pool and multiplying by its total borrowed assets, in
  that order, each operation in double arithmetic; the string is the plain one of
  \<^verbatim>\<open>Number.prototype.toString\<close>: it has no character of a locale format, such as a
  space or a comma that groups digits.
\<close>

theorem calculateDebt_rendering:
  "calculateDebt p =
     Number_toString
       (num_multiply (num_divide (borrowShares p) (totalBorrowShares (pool p)))
          (totalBorrowAssets (pool p))) \<and>
   set (calculateDebt p) \<subseteq> set number_characters \<and>
   CHR '','' \<notin> set (calculateDebt p) \<and> CHR '' '' \<notin> set (calculateDebt p)"
proof -
  have plain: "set (calculateDebt p) \<subseteq> set number_characters"
    unfolding calculateDebt_def by (rule Number_toString_plain)
  moreover have "CHR '','' \<notin> set number_characters" "CHR '' '' \<notin> set number_characters"
    by (simp_all add: number_characters_def)
  ultimately show ?thesis
    by (auto simp: calculateDebt_def)
qed

section \<open>Renderings with a fraction\<close>

lemma ceiling_numeral_divide: "\<lceil>numeral a / numeral b :: rat\<rceil> = - ((- numeral a) div numeral b)"
  using ceiling_divide_eq_div [of "numeral a" "numeral b", where ?'a = rat] by simp

lemma ilog2_three_fifths: "ilog2 (3 / 5) = - 1"
  by (simp add: ilog2_def bitlen.simps ceiling_numeral_divide)

lemma round64_three_fifths: "round64 (3 / 5) \<noteq> Dbl (1 / 2)"
  by (simp add: round64_def ilog2_three_fifths pow2_def round_half_even_def Let_def floor_numeral_divide)

lemma candidate_half: "candidate (Suc 0) (1 / 2) 0 = Some (5, 0)"
  by (simp add: candidate_def lower_digits_def rounds_to_def decimal_def pow10_def round64_half
      round64_three_fifths Let_def)

lemma shortest_half: "shortest (Suc 0) (1 / 2) 0 = (5, 0)"
  by (subst shortest.simps) (simp add: candidate_half)

lemma toString_half: "Number_toString (Dbl (1 / 2)) = ''0.5''"
  by (simp add: positive_toString_def ilog10_def shortest_half format_digits_def
      digits10.simps [of 5] digits10.simps [of 1] digit_char_def)

lemma bitlen_2: "bitlen 2 = 2" and bitlen_3: "bitlen 3 = 2"
  by (simp_all add: bitlen.simps)

lemma ilog2_quarter_half:
  assumes "1 / 4 \<le> a" and "a < 1 / 2"
  shows "ilog2 a = - 2"
proof -
  from assms have pos: "0 < a" by simp
  from assms(2) pos have "2 < 1 / a"
    by (simp add: field_simps)
  moreover from assms(1) pos have "1 / a \<le> 4"
    by (simp add: field_simps)
  ultimately have "2 < \<lceil>1 / a\<rceil>" and "\<lceil>1 / a\<rceil> \<le> 4"
    by (simp_all add: less_ceiling_iff ceiling_le_iff)
  then have "\<lceil>1 / a\<rceil> = 3 \<or> \<lceil>1 / a\<rceil> = 4"
    by arith
  with assms(2) show ?thesis
    by (auto simp: ilog2_def bitlen_2 bitlen_3)
qed

lemma round64_quarter_half:
  assumes "1 / 4 \<le> a" and "a < 1 / 2"
  shows "round64 a = Dbl (of_int (round_half_even (a * 2 ^ 54)) / 2 ^ 54)"
proof -
  from assms have pos: "0 < a" by simp
  have "(2::rat) ^ 52 \<le> a * 2 ^ 54" using assms(1) by simp
  then have "2 ^ 52 \<le> \<lfloor>a * 2 ^ 54\<rfloor>"
    by (simp add: le_floor_iff)
  then have low: "2 ^ 52 \<le> round_half_even (a * 2 ^ 54)"
    by (auto simp: round_half_even_def Let_def)
  have "a * 2 ^ 54 < 2 ^ 53" using assms(2) by simp
  then have "\<lfloor>a * 2 ^ 54\<rfloor> < 2 ^ 53"
    by (simp add: floor_less_iff)
  then have high: "round_half_even (a * 2 ^ 54) \<le> 2 ^ 53"
    by (auto simp: round_half_even_def Let_def)
  from low have nz: "rat_of_int (round_half_even (a * 2 ^ 54)) \<noteq> 0" by auto
  from high have "rat_of_int (round_half_even (a * 2 ^ 54)) \<le> 2 ^ 53"
    by (metis of_int_le_numeral_power_cancel_iff)
  then have "rat_of_int (round_half_even (a * 2 ^ 54)) / 2 ^ 54 \<le> 1 / 2"
    by simp
  then have small: "\<not> pow2 1024 \<le> rat_of_int (round_half_even (a * 2 ^ 54)) / 2 ^ 54"
    by (simp add: pow2_def)
  have r: "rat_of_int (round_half_even (a / pow2 (- 2 - 52))) * pow2 (- 2 - 52) =
        rat_of_int (round_half_even (a * 2 ^ 54)) / 2 ^ 54"
    by (simp add: pow2_def)
  have m: "max (- 2) (- 1022) = (- 2 :: int)"
    by simp
  have abs: "\<bar>a\<bar> = a" using pos by simp
  have q: "a \<noteq> 0" "\<not> a < 0" using pos by simp_all
  show ?thesis
    unfolding round64_def Let_def abs ilog2_quarter_half [OF assms] m r
    using q nz small by simp
qed

lemma c1: "candidate (Suc 0) (1351079888211149 / 4503599627370496) 0 = None"
  by (simp add: candidate_def lower_digits_def rounds_to_def decimal_def pow10_def round64_quarter_half
      round_half_even_def Let_def floor_numeral_divide)

lemma ilog2_tenth: "ilog2 (1 / 10) = - 4"
  by (simp add: ilog2_def bitlen.simps)

lemma round64_tenth: "round64 (1 / 10) = Dbl (3602879701896397 / 36028797018963968)"
  by (simp add: round64_def ilog2_tenth pow2_def round_half_even_def Let_def floor_numeral_divide)

lemma divide_1_10: "num_divide (Dbl 1) (Dbl 10) = Dbl (3602879701896397 / 36028797018963968)"
  by (simp add: num_divide_def signed_rat_def round64_tenth)

lemma multiply_tenth_3:
  "num_multiply (Dbl (3602879701896397 / 36028797018963968)) (Dbl 3) =
   Dbl (1351079888211149 / 4503599627370496)"
  by (simp add: num_multiply_def signed_rat_def round64_quarter_half round_half_even_def Let_def
      floor_numeral_divide)

text \<open>No decimal of fewer than seventeen digits rounds to this double.\<close>

lemma candidate_3e_1: "candidate (Suc 0) (1351079888211149 / 4503599627370496) 0 = None"
  by (simp add: candidate_def lower_digits_def rounds_to_def decimal_def pow10_def round64_quarter_half
      round_half_even_def Let_def floor_numeral_divide)

lemma candidate_3e_2: "candidate 2 (1351079888211149 / 4503599627370496) 0 = None"
  by (simp add: candidate_def lower_digits_def rounds_to_def decimal_def pow10_def round64_quarter_half
      round_half_even_def Let_def floor_numeral_divide)

lemma candidate_3e_3: "candidate 3 (1351079888211149 / 4503599627370496) 0 = None"
  by (simp add: candidate_def lower_digits_def rounds_to_def decimal_def pow10_def round64_quarter_half
      round_half_even_def Let_def floor_numeral_divide)

lemma candidate_3e_4: "candidate 4 (1351079888211149 / 4503599627370496) 0 = None"
  by (simp add: candidate_def lower_digits_def rounds_to_def decimal_def pow10_def round64_quarter_half
      round_half_even_def Let_def floor_numeral_divide)

lemma candidate_3e_5: "candidate 5 (1351079888211149 / 4503599627370496) 0 = None"
  by (simp add: candidate_def lower_digits_def rounds_to_def decimal_def pow10_def round64_quarter_half
      round_half_even_def Let_def floor_numeral_divide)

lemma candidate_3e_6: "candidate 6 (1351079888211149 / 4503599627370496) 0 = None"
  by (simp add: candidate_def lower_digits_def rounds_to_def decimal_def pow10_def round64_quarter_half
      round_half_even_def Let_def floor_numeral_divide)

lemma candidate_3e_7: "candidate 7 (1351079888211149 / 4503599627370496) 0 = None"
  by (simp add: candidate_def lower_digits_def rounds_to_def decimal_def pow10_def round64_quarter_half
      round_half_even_def Let_def floor_numeral_divide)

lemma candidate_3e_8: "candidate 8 (1351079888211149 / 4503599627370496) 0 = None"
  by (simp add: candidate_def lower_digits_def rounds_to_def decimal_def pow10_def round64_quarter_half
      round_half_even_def Let_def floor_numeral_divide)

lemma candidate_3e_9: "candidate 9 (1351079888211149 / 4503599627370496) 0 = None"
  by (simp add: candidate_def lower_digits_def rounds_to_def decimal_def pow10_def round64_quarter_half
      round_half_even_def Let_def floor_numeral_divide)

lemma candidate_3e_10: "candidate 10 (1351079888211149 / 4503599627370496) 0 = None"
  by (simp add: candidate_def lower_digits_def rounds_to_def decimal_def pow10_def round64_quarter_half
      round_half_even_def Let_def floor_numeral_divide)

lemma candidate_3e_11: "candidate 11 (1351079888211149 / 4503599627370496) 0 = None"
  by (simp add: candidate_def lower_digits_def rounds_to_def decimal_def pow10_def round64_quarter_half
      round_half_even_def Let_def floor_numeral_divide)

lemma candidate_3e_12: "candidate 12 (1351079888211149 / 4503599627370496) 0 = None"
  by (simp add: candidate_def lower_digits_def rounds_to_def decimal_def pow10_def round64_quarter_half
      round_half_even_def Let_def floor_numeral_divide)

lemma candidate_3e_13: "candidate 13 (1351079888211149 / 4503599627370496) 0 = None"
  by (simp add: candidate_def lower_digits_def rounds_to_def decimal_def pow10_def round64_quarter_half
      round_half_even_def Let_def floor_numeral_divide)

lemma candidate_3e_14: "candidate 14 (1351079888211149 / 4503599627370496) 0 = None"
  by (simp add: candidate_def lower_digits_def rounds_to_def decimal_def pow10_def round64_quarter_half
      round_half_even_def Let_def floor_numeral_divide)

lemma candidate_3e_15: "candidate 15 (1351079888211149 / 4503599627370496) 0 = None"
  by (simp add: candidate_def lower_digits_def rounds_to_def decimal_def pow10_def round64_quarter_half
      round_half_even_def Let_def floor_numeral_divide)

lemma candidate_3e_16: "candidate 16 (1351079888211149 / 4503599627370496) 0 = None"
  by (simp add: candidate_def lower_digits_def rounds_to_def decimal_def pow10_def round64_quarter_half
      round_half_even_def Let_def floor_numeral_divide)

lemma nearest_3e_17: "nearest 17 (1351079888211149 / 4503599627370496) 0 = (30000000000000004, 0)"
  by (simp add: nearest_def lower_digits_def decimal_def pow10_def Let_def floor_numeral_divide)

lemma shortest_skip:
  assumes "k < 17" and "candidate k v n0 = None"
  shows "shortest k v n0 = shortest (Suc k) v n0"
  using assms by (subst shortest.simps) simp

lemma shortest_3e: "shortest (Suc 0) (1351079888211149 / 4503599627370496) 0 = (30000000000000004, 0)"
proof -
  have "shortest (Suc 0) (1351079888211149 / 4503599627370496) 0 = shortest 2 (1351079888211149 / 4503599627370496) 0"
    using shortest_skip [OF _ candidate_3e_1] by (simp add: eval_nat_numeral)
  also have "\<dots> = shortest 3 (1351079888211149 / 4503599627370496) 0"
    using shortest_skip [OF _ candidate_3e_2] by simp
  also have "\<dots> = shortest 4 (1351079888211149 / 4503599627370496) 0"
    using shortest_skip [OF _ candidate_3e_3] by simp
  also have "\<dots> = shortest 5 (1351079888211149 / 4503599627370496) 0"
    using shortest_skip [OF _ candidate_3e_4] by simp
  also have "\<dots> = shortest 6 (1351079888211149 / 4503599627370496) 0"
    using shortest_skip [OF _ candidate_3e_5] by simp
  also have "\<dots> = shortest 7 (1351079888211149 / 4503599627370496) 0"
    using shortest_skip [OF _ candidate_3e_6] by simp
  also have "\<dots> = shortest 8 (1351079888211149 / 4503599627370496) 0"
    using shortest_skip [OF _ candidate_3e_7] by simp
  also have "\<dots> = shortest 9 (1351079888211149 / 4503599627370496) 0"
    using shortest_skip [OF _ candidate_3e_8] by simp
  also have "\<dots> = shortest 10 (1351079888211149 / 4503599627370496) 0"
    using shortest_skip [OF _ candidate_3e_9] by simp
  also have "\<dots> = shortest 11 (1351079888211149 / 4503599627370496) 0"
    using shortest_skip [OF _ candidate_3e_10] by simp
  also have "\<dots> = shortest 12 (1351079888211149 / 4503599627370496) 0"
    using shortest_skip [OF _ candidate_3e_11] by simp
  also have "\<dots> = shortest 13 (1351079888211149 / 4503599627370496) 0"
    using shortest_skip [OF _ candidate_3e_12] by simp
  also have "\<dots> = shortest 14 (1351079888211149 / 4503599627370496) 0"
    using shortest_skip [OF _ candidate_3e_13] by simp
  also have "\<dots> = shortest 15 (1351079888211149 / 4503599627370496) 0"
    using shortest_skip [OF _ candidate_3e_14] by simp
  also have "\<dots> = shortest 16 (1351079888211149 / 4503599627370496) 0"
    using shortest_skip [OF _ candidate_3e_15] by simp
  also have "\<dots> = shortest 17 (1351079888211149 / 4503599627370496) 0"
    using shortest_skip [OF _ candidate_3e_16] by simp
  also have "\<dots> = (30000000000000004, 0)"
    by (subst shortest.simps) (simp add: nearest_3e_17)
  finally show ?thesis .
qed

lemma digits10_3e: "digits10 30000000000000004 = ''30000000000000004''"
  by (simp add: digits10.simps digit_char_def)

lemma toString_3e: "Number_toString (Dbl (1351079888211149 / 4503599627370496)) = ''0.30000000000000004''"
  by (simp add: positive_toString_def ilog10_def ceiling_numeral_divide shortest_3e format_digits_def
      digits10_3e digits10.simps [of 3] digit_char_def)

theorem calculateDebt_rendering_witness:
  "calculateDebt position_7 = ''500'' \<and>
   calculateDebt (position_7\<lparr>pool := example_pool\<lparr>totalBorrowAssets := Dbl 1\<rparr>\<rparr>) = ''0.5'' \<and>
   calculateDebt
     (position_7\<lparr>borrowShares := Dbl 1,
        pool := example_pool\<lparr>totalBorrowShares := Dbl 10, totalBorrowAssets := Dbl 3\<rparr>\<rparr>) =
     ''0.30000000000000004'' \<and>
   calculateDebt (position_7\<lparr>pool := example_pool\<lparr>totalBorrowShares := Dbl 0\<rparr>\<rparr>) = ''Infinity'' \<and>
   CHR '','' \<notin> set (calculateDebt position_7) \<and>
   CHR '','' \<notin> set (calculateDebt (position_7\<lparr>pool := example_pool\<lparr>totalBorrowShares := Dbl 0\<rparr>\<rparr>))"
proof -
  have "num_multiply (num_divide (Dbl 50) (Dbl 0)) (Dbl 1000) = PosInf"
    by (simp add: num_divide_def num_multiply_def signed_inf_def)
  then have zero: "calculateDebt (position_7\<lparr>pool := example_pool\<lparr>totalBorrowShares := Dbl 0\<rparr>\<rparr>) = ''Infinity''"
    by (simp add: calculateDebt_def position_7_def example_pool_def)
  have "num_multiply (Dbl (1 / 2)) (Dbl 1) = Dbl (1 / 2)"
    by (simp add: num_multiply_def signed_rat_def round64_half)
  then have half: "calculateDebt (position_7\<lparr>pool := example_pool\<lparr>totalBorrowAssets := Dbl 1\<rparr>\<rparr>) = ''0.5''"
    by (simp add: calculateDebt_def position_7_def example_pool_def divide_50_100 toString_half
        del: Number_toString.simps)
  have tenths: "calculateDebt
     (position_7\<lparr>borrowShares := Dbl 1,
        pool := example_pool\<lparr>totalBorrowShares := Dbl 10, totalBorrowAssets := Dbl 3\<rparr>\<rparr>) =
     ''0.30000000000000004''"
    by (simp add: calculateDebt_def position_7_def example_pool_def divide_1_10 multiply_tenth_3
        toString_3e del: Number_toString.simps)
  from calculateDebt_rendering [of position_7]
  have "CHR '','' \<notin> set (calculateDebt position_7)"
    by blast
  moreover
  from calculateDebt_rendering [of "position_7\<lparr>pool := example_pool\<lparr>totalBorrowShares := Dbl 0\<rparr>\<rparr>"]
  have "CHR '','' \<notin> set (calculateDebt (position_7\<lparr>pool := example_pool\<lparr>totalBorrowShares := Dbl 0\<rparr>\<rparr>))"
    by blast
  ultimately show ?thesis
    using zero half tenths calculateDebt_position_7 by simp
qed

end
